theory Spec2Isabelle
  imports Main
begin

section \<open>The transport layer of bloat: service/transport.go\<close>

text \<open>
  The file embeds \<^verbatim>\<open>NewHandler\<close> of \<^verbatim>\<open>service/transport.go\<close>: the helpers
  \<^verbatim>\<open>setSessionCookie\<close>, \<^verbatim>\<open>writeJson\<close> and \<^verbatim>\<open>redirect\<close>, the closures
  \<^verbatim>\<open>writeError\<close>, \<^verbatim>\<open>authenticate\<close> and \<^verbatim>\<open>handle\<close>, every route function that
  is passed to \<^verbatim>\<open>handle\<close>, and the table of the routes. The methods of \<^verbatim>\<open>*service\<close>
  live outside this file; they are the fields of the record \<open>service\<close>, so every
  theorem that does not fix one of them holds for any implementation of it.
\<close>

subsection \<open>Time, errors, sessions\<close>

text \<open>\<^verbatim>\<open>time.Time\<close> and \<^verbatim>\<open>time.Duration\<close> in nanoseconds.\<close>

type_synonym time = int

definition hour :: time where
  "hour = 3600 * 1000000000"

definition sessionExp :: time where
  "sessionExp = 365 * 24 * hour"

text \<open>
  Modelled from the spec: the error values of the service package (the sentinel
  \<^verbatim>\<open>errInvalidSession\<close> and its siblings are declared outside transport.go). The
  taxonomy is the spec's: InvalidSession, InvalidCsrf, BackendUnavailable, and the
  errors of the business logic. \<open>Error\<close> is the method \<^verbatim>\<open>err.Error()\<close>; the sentinels
  print as their names.
\<close>

datatype error =
    InvalidSession
  | InvalidCsrf
  | BackendUnavailable string
  | BusinessError string

definition errInvalidSession :: error where
  "errInvalidSession = InvalidSession"

fun Error :: "error \<Rightarrow> string" where
  "Error InvalidSession = ''InvalidSession''"
| "Error InvalidCsrf = ''InvalidCsrf''"
| "Error (BackendUnavailable m) = m"
| "Error (BusinessError m) = m"

text \<open>
  Modelled from the spec: \<^verbatim>\<open>model.Session\<close> is declared outside transport.go. The
  fields are those of the spec's data model: identifier, state, remote instance, CSRF
  secret, expiry timestamp.
\<close>

datatype session_state = anonymous | authenticated

record Session =
  ID :: string
  State :: session_state
  Instance :: string
  CsrfSecret :: string
  ExpiresAt :: time

text \<open>The zero value of the struct, as \<^verbatim>\<open>&client{...}\<close> leaves the field \<^verbatim>\<open>s\<close>.\<close>

definition zero_Session :: Session where
  "zero_Session = \<lparr>ID = [], State = anonymous, Instance = [], CsrfSecret = [], ExpiresAt = 0\<rparr>"

text \<open>
  Modelled from the spec: \<^verbatim>\<open>Session.IsLoggedIn\<close> is declared outside transport.go; a
  session is logged in when it is in the state \<open>authenticated\<close>.
\<close>

definition IsLoggedIn :: "Session \<Rightarrow> bool" where
  "IsLoggedIn sess \<longleftrightarrow> State sess = authenticated"

subsection \<open>The response writer and the request\<close>

text \<open>
  \<^verbatim>\<open>http.ResponseWriter\<close>: the header map in the order of the \<^verbatim>\<open>Add\<close> calls, the
  status line (\<open>None\<close> until it is written; net/http keeps the first
  \<^verbatim>\<open>WriteHeader\<close> and ignores later ones, and a body write before any
  \<^verbatim>\<open>WriteHeader\<close> writes status 200), the cookies set by \<^verbatim>\<open>http.SetCookie\<close> (kept
  structured instead of as serialised \<^verbatim>\<open>Set-Cookie\<close> header lines), and the body as
  the sequence of things written to it.
\<close>

record Cookie =
  Name :: string
  Value :: string
  Expires :: time

datatype json = JString string | JInt int

datatype body_item =
    ErrorPageHtml string bool
  | JsonObject "(string \<times> json) list"
  | Html string

record ResponseWriter =
  header :: "(string \<times> string) list"
  status :: "nat option"
  cookies :: "Cookie list"
  body :: "body_item list"

definition Header_Add :: "string \<Rightarrow> string \<Rightarrow> ResponseWriter \<Rightarrow> ResponseWriter" where
  "Header_Add k v rw = rw\<lparr>header := header rw @ [(k, v)]\<rparr>"

definition WriteHeader :: "nat \<Rightarrow> ResponseWriter \<Rightarrow> ResponseWriter" where
  "WriteHeader code rw = (if status rw = None then rw\<lparr>status := Some code\<rparr> else rw)"

definition Write :: "body_item \<Rightarrow> ResponseWriter \<Rightarrow> ResponseWriter" where
  "Write item rw = (let rw' = WriteHeader 200 rw in rw'\<lparr>body := body rw' @ [item]\<rparr>)"

definition SetCookie :: "ResponseWriter \<Rightarrow> Cookie \<Rightarrow> ResponseWriter" where
  "SetCookie rw ck = rw\<lparr>cookies := cookies rw @ [ck]\<rparr>"

definition StatusFound :: nat where
  "StatusFound = 302"

definition StatusInternalServerError :: nat where
  "StatusInternalServerError = 500"

definition MethodGet :: string where
  "MethodGet = ''GET''"

text \<open>
  \<^verbatim>\<open>*http.Request\<close> as the handlers read it, after net/http has parsed it:
  \<open>Form\<close> is what \<^verbatim>\<open>FormValue\<close> reads, \<open>PostForm\<close> the parsed body,
  \<open>Query\<close> is \<^verbatim>\<open>URL.Query()\<close>,
  \<open>Vars\<close> is \<^verbatim>\<open>mux.Vars\<close>, and \<open>MultipartForm\<close> is \<open>None\<close> (Go's nil) unless
  the body was multipart/form-data.
\<close>

type_synonym FileHeader = string

type_synonym Values = "(string \<times> string list) list"

record Multipart_Form =
  MValue :: Values
  File :: "(string \<times> FileHeader list) list"

record Request =
  Method :: string
  URL_Path :: string
  URL_RequestURI :: string
  Cookies :: "(string \<times> string) list"
  Form :: Values
  PostForm :: Values
  Query :: Values
  Vars :: "(string \<times> string) list"
  MultipartForm :: "Multipart_Form option"

text \<open>\<^verbatim>\<open>url.Values.Get\<close>: the first value of the key, or the empty string.\<close>

definition Get :: "Values \<Rightarrow> string \<Rightarrow> string" where
  "Get vs k = (case map_of vs k of Some (v # _) \<Rightarrow> v | _ \<Rightarrow> [])"

definition FormValue :: "Request \<Rightarrow> string \<Rightarrow> string" where
  "FormValue req k = Get (Form req) k"

text \<open>\<^verbatim>\<open>r.Cookie(name)\<close>: the first cookie of that name, nil when there is none.\<close>

definition Cookie_of :: "Request \<Rightarrow> string \<Rightarrow> string option" where
  "Cookie_of req k = map_of (Cookies req) k"

subsection \<open>The client, the backend and the service\<close>

record client =
  c_w :: ResponseWriter
  c_r :: Request
  c_s :: Session
  c_csrf :: string

text \<open>
  What the methods of \<^verbatim>\<open>*service\<close> work on besides the client: the session store (the
  sessions, found by their identifier) and the wall clock, which any of them may advance.
\<close>

record backend =
  store :: "Session list"
  clock :: time

type_synonym 'a svc = "backend \<Rightarrow> 'a \<times> client \<times> backend"

datatype auth_level = NOAUTH | SESSION | CSRF

datatype resp_type = HTML | JSON

text \<open>
  \<^verbatim>\<open>model.Settings\<close>, with the fields that the struct literal of the settings route
  sets.
\<close>

record Settings =
  DefaultVisibility :: string
  DefaultFormat :: string
  CopyScope :: bool
  ThreadInNewTab :: bool
  HideAttachments :: bool
  MaskNSFW :: bool
  NotificationInterval :: int
  FluorideMode :: bool
  DarkMode :: bool
  AntiDopamineMode :: bool
  CSS :: string

text \<open>
  The methods of \<^verbatim>\<open>*service\<close> that the route functions call, with the results that
  transport.go reads from them. \<open>deriveToken\<close> is the CSRF guard's derivation of the
  token of a session.
\<close>

record service =
  svc_authenticate :: "client \<Rightarrow> string \<Rightarrow> string \<Rightarrow> string \<Rightarrow> auth_level \<Rightarrow> error option svc"
  deriveToken :: "Session \<Rightarrow> string"
  RootPage :: "client \<Rightarrow> error option svc"
  NavPage :: "client \<Rightarrow> error option svc"
  SingleInstance :: "string \<times> bool"
  SigninPage :: "client \<Rightarrow> error option svc"
  NewSession :: "client \<Rightarrow> string \<Rightarrow> (string \<times> string \<times> error option) svc"
  TimelinePage :: "client \<Rightarrow> string \<Rightarrow> string \<Rightarrow> string \<Rightarrow> string \<Rightarrow> error option svc"
  ThreadPage :: "client \<Rightarrow> string \<Rightarrow> bool \<Rightarrow> error option svc"
  LikedByPage :: "client \<Rightarrow> string \<Rightarrow> error option svc"
  RetweetedByPage :: "client \<Rightarrow> string \<Rightarrow> error option svc"
  NotificationPage :: "client \<Rightarrow> string \<Rightarrow> string \<Rightarrow> error option svc"
  UserPage :: "client \<Rightarrow> string \<Rightarrow> string \<Rightarrow> string \<Rightarrow> string \<Rightarrow> error option svc"
  UserSearchPage :: "client \<Rightarrow> string \<Rightarrow> string \<Rightarrow> int \<Rightarrow> error option svc"
  AboutPage :: "client \<Rightarrow> error option svc"
  EmojiPage :: "client \<Rightarrow> error option svc"
  SearchPage :: "client \<Rightarrow> string \<Rightarrow> string \<Rightarrow> int \<Rightarrow> error option svc"
  SettingsPage :: "client \<Rightarrow> error option svc"
  FiltersPage :: "client \<Rightarrow> error option svc"
  Signin :: "client \<Rightarrow> string \<Rightarrow> error option svc"
  Post :: "client \<Rightarrow> string \<Rightarrow> string \<Rightarrow> string \<Rightarrow> string \<Rightarrow> bool \<Rightarrow> FileHeader list
             \<Rightarrow> (string \<times> error option) svc"
  Like :: "client \<Rightarrow> string \<Rightarrow> (int \<times> error option) svc"
  UnLike :: "client \<Rightarrow> string \<Rightarrow> (int \<times> error option) svc"
  Retweet :: "client \<Rightarrow> string \<Rightarrow> (int \<times> error option) svc"
  UnRetweet :: "client \<Rightarrow> string \<Rightarrow> (int \<times> error option) svc"
  Vote :: "client \<Rightarrow> string \<Rightarrow> string list \<Rightarrow> error option svc"
  Follow :: "client \<Rightarrow> string \<Rightarrow> bool option \<Rightarrow> error option svc"
  UnFollow :: "client \<Rightarrow> string \<Rightarrow> error option svc"
  Accept :: "client \<Rightarrow> string \<Rightarrow> error option svc"
  Reject :: "client \<Rightarrow> string \<Rightarrow> error option svc"
  Mute :: "client \<Rightarrow> string \<Rightarrow> error option svc"
  UnMute :: "client \<Rightarrow> string \<Rightarrow> error option svc"
  Block :: "client \<Rightarrow> string \<Rightarrow> error option svc"
  UnBlock :: "client \<Rightarrow> string \<Rightarrow> error option svc"
  Subscribe :: "client \<Rightarrow> string \<Rightarrow> error option svc"
  UnSubscribe :: "client \<Rightarrow> string \<Rightarrow> error option svc"
  SaveSettings :: "client \<Rightarrow> Settings \<Rightarrow> error option svc"
  MuteConversation :: "client \<Rightarrow> string \<Rightarrow> error option svc"
  UnMuteConversation :: "client \<Rightarrow> string \<Rightarrow> error option svc"
  Delete :: "client \<Rightarrow> string \<Rightarrow> error option svc"
  ReadNotifications :: "client \<Rightarrow> string \<Rightarrow> error option svc"
  Bookmark :: "client \<Rightarrow> string \<Rightarrow> error option svc"
  UnBookmark :: "client \<Rightarrow> string \<Rightarrow> error option svc"
  Filter :: "client \<Rightarrow> string \<Rightarrow> bool \<Rightarrow> error option svc"
  UnFilter :: "client \<Rightarrow> string \<Rightarrow> error option svc"
  Signout :: "client \<Rightarrow> error option svc"

text \<open>
  Modelled from the spec: \<^verbatim>\<open>s.ErrorPage\<close> is declared outside transport.go. It renders
  an error page that carries the message of the error and the "retry allowed" flag.
\<close>

definition ErrorPage :: "client \<Rightarrow> error \<Rightarrow> bool \<Rightarrow> client" where
  "ErrorPage c err retry = c\<lparr>c_w := Write (ErrorPageHtml (Error err) retry) (c_w c)\<rparr>"

subsection \<open>The state of the handler and its instrumentation\<close>

text \<open>
  The closures of \<^verbatim>\<open>NewHandler\<close> run on the backend. The field \<open>calls\<close> is ghost
  state: it records, in order, every call of the closure \<^verbatim>\<open>authenticate\<close> and every
  call of a route's function by \<^verbatim>\<open>handle\<close>. The logger is not part of this state: only
  the deferred function of \<^verbatim>\<open>handle\<close> writes to it.
\<close>

datatype call = GateCall auth_level | BusinessCall

record state =
  be :: backend
  calls :: "call list"

record log_record =
  lr_path :: string
  lr_err :: "error option"
  lr_took :: time

text \<open>A route's function either returns its error value or panics.\<close>

datatype result = Ret "error option" client state | Panicked client state

datatype handled =
    Finished client state "log_record list"
  | Aborted client state "log_record list"

subsection \<open>The helpers and closures of transport.go\<close>

definition setSessionCookie :: "ResponseWriter \<Rightarrow> string \<Rightarrow> time \<Rightarrow> time \<Rightarrow> ResponseWriter" where
  "setSessionCookie rw sid exp now =
     SetCookie rw \<lparr>Name = ''session_id'', Value = sid, Expires = now + exp\<rparr>"

definition redirect :: "client \<Rightarrow> string \<Rightarrow> client" where
  "redirect c url = c\<lparr>c_w := WriteHeader StatusFound (Header_Add ''Location'' url (c_w c))\<rparr>"

text \<open>
  \<^verbatim>\<open>writeJson\<close> encodes the object with the single field \<open>data\<close> to the writer;
  the encoder's error is that of a failed write, which the writer of this model never
  reports.
\<close>

definition writeJson :: "client \<Rightarrow> json \<Rightarrow> error option \<times> client" where
  "writeJson c data = (None, c\<lparr>c_w := Write (JsonObject [(''data'', data)]) (c_w c)\<rparr>)"

definition writeError :: "client \<Rightarrow> error \<Rightarrow> resp_type \<Rightarrow> bool \<Rightarrow> client" where
  "writeError c err t retry =
     (case t of
        HTML \<Rightarrow> ErrorPage (c\<lparr>c_w := WriteHeader StatusInternalServerError (c_w c)\<rparr>) err retry
      | JSON \<Rightarrow>
          c\<lparr>c_w := Write (JsonObject [(''error'', JString (Error err))])
                     (WriteHeader StatusInternalServerError (c_w c))\<rparr>)"

definition authenticate :: "service \<Rightarrow> client \<Rightarrow> auth_level \<Rightarrow> state \<Rightarrow> error option \<times> client \<times> state" where
  "authenticate s c t st =
     (let sid = (case Cookie_of (c_r c) ''session_id'' of Some v \<Rightarrow> v | None \<Rightarrow> []);
          csrf = FormValue (c_r c) ''csrf_token'';
          ref = URL_RequestURI (c_r c)
      in case svc_authenticate s c sid csrf ref t (be st) of
           (err, c', be') \<Rightarrow> (err, c', st\<lparr>be := be', calls := calls st @ [GateCall t]\<rparr>))"

text \<open>The client of a request, with the content type of the route already added.\<close>

definition new_client :: "ResponseWriter \<Rightarrow> Request \<Rightarrow> resp_type \<Rightarrow> client" where
  "new_client rw req rt =
     (let c = \<lparr>c_w = rw, c_r = req, c_s = zero_Session, c_csrf = []\<rparr>;
          ct = (case rt of HTML \<Rightarrow> ''text/html; charset=utf-8'' | JSON \<Rightarrow> ''application/json'')
      in c\<lparr>c_w := Header_Add ''Content-Type'' ct (c_w c)\<rparr>)"

text \<open>
  The deferred function: \<open>begin\<close> is \<^verbatim>\<open>time.Now()\<close> at the \<^verbatim>\<open>defer\<close> statement,
  \<^verbatim>\<open>time.Since(begin)\<close> reads the clock when the handler is left.
\<close>

definition logger_Printf :: "Request \<Rightarrow> error option \<Rightarrow> time \<Rightarrow> state \<Rightarrow> log_record list \<Rightarrow> log_record list" where
  "logger_Printf req err begin st lg =
     lg @ [\<lparr>lr_path = URL_Path req, lr_err = err, lr_took = clock (be st) - begin\<rparr>]"

definition handle ::
  "service \<Rightarrow> (client \<Rightarrow> state \<Rightarrow> result) \<Rightarrow> auth_level \<Rightarrow> resp_type \<Rightarrow>
     ResponseWriter \<Rightarrow> Request \<Rightarrow> state \<Rightarrow> log_record list \<Rightarrow> handled" where
  "handle s f at rt rw req st lg =
     (let begin = clock (be st);
          c = new_client rw req rt
      in case authenticate s c at st of
           (Some err, c1, st1) \<Rightarrow>
             Finished (writeError c1 err rt (Method req = MethodGet)) st1
               (logger_Printf req (Some err) begin st1 lg)
         | (None, c1, st1) \<Rightarrow>
             (case f c1 (st1\<lparr>calls := calls st1 @ [BusinessCall]\<rparr>) of
                Panicked c2 st2 \<Rightarrow> Aborted c2 st2 (logger_Printf req None begin st2 lg)
              | Ret (Some err) c2 st2 \<Rightarrow>
                  Finished (writeError c2 err rt (Method req = MethodGet)) st2
                    (logger_Printf req (Some err) begin st2 lg)
              | Ret None c2 st2 \<Rightarrow> Finished c2 st2 (logger_Printf req None begin st2 lg)))"

subsection \<open>strconv.Atoi\<close>

text \<open>
  \<^verbatim>\<open>strconv.Atoi\<close> of the Go library, on the 64-bit \<^verbatim>\<open>int\<close>: an optional sign, then
  decimal digits read by the loop \<^verbatim>\<open>n = n*10 + int(ch)\<close>, which stops with a syntax
  error at the first byte that is not a digit. A value out of range is clamped and
  returned with a range error.
\<close>

datatype NumError = ErrSyntax | ErrRange

definition is_digit :: "char \<Rightarrow> bool" where
  "is_digit ch \<longleftrightarrow> 48 \<le> (of_char ch :: nat) \<and> (of_char ch :: nat) \<le> 57"

fun atoi_loop :: "string \<Rightarrow> nat \<Rightarrow> nat option" where
  "atoi_loop [] n = Some n"
| "atoi_loop (ch # cs) n =
     (if is_digit ch then atoi_loop cs (n * 10 + (of_char ch - 48)) else None)"

definition Atoi :: "string \<Rightarrow> int \<times> NumError option" where
  "Atoi s0 =
     (if s0 = [] then (0, Some ErrSyntax)
      else
        let neg = (hd s0 = CHR ''-'');
            ds = (if hd s0 = CHR ''-'' \<or> hd s0 = CHR ''+'' then tl s0 else s0)
        in if ds = [] then (0, Some ErrSyntax)
           else
             (case atoi_loop ds 0 of
                None \<Rightarrow> (0, Some ErrSyntax)
              | Some un \<Rightarrow>
                  if \<not> neg \<and> 2 ^ 63 \<le> int un then (2 ^ 63 - 1, Some ErrRange)
                  else if neg \<and> 2 ^ 63 < int un then (- (2 ^ 63), Some ErrRange)
                  else (if neg then - int un else int un, None)))"


subsection \<open>The route functions\<close>

text \<open>\<^verbatim>\<open>mux.Vars(c.r)[k]\<close>: the empty string when the route has no such variable.\<close>

definition Var :: "Request \<Rightarrow> string \<Rightarrow> string" where
  "Var req k = (case map_of (Vars req) k of Some v \<Rightarrow> v | None \<Rightarrow> [])"

text \<open>
  Each \<open>_func\<close> is the function literal that transport.go passes to \<^verbatim>\<open>handle\<close>; the
  constant without the suffix is the \<^verbatim>\<open>http.HandlerFunc\<close> that \<^verbatim>\<open>handle\<close> returns.
\<close>

definition rootPage_func :: "service \<Rightarrow> client \<Rightarrow> state \<Rightarrow> result" where
  "rootPage_func s c st =
     (case authenticate s c SESSION st of
        (Some err, c1, st1) \<Rightarrow>
          if err = errInvalidSession then Ret None (redirect c1 ''/signin'') st1
          else Ret (Some err) c1 st1
      | (None, c1, st1) \<Rightarrow>
          if \<not> IsLoggedIn (c_s c1) then Ret None (redirect c1 ''/signin'') st1
          else (case RootPage s c1 (be st1) of
                  (err, c2, be2) \<Rightarrow> Ret err c2 (st1\<lparr>be := be2\<rparr>)))"

definition rootPage :: "service \<Rightarrow> ResponseWriter \<Rightarrow> Request \<Rightarrow> state \<Rightarrow> log_record list \<Rightarrow> handled" where
  "rootPage s = handle s (rootPage_func s) NOAUTH HTML"

definition navPage_func :: "service \<Rightarrow> client \<Rightarrow> state \<Rightarrow> result" where
  "navPage_func s c st =
     (case NavPage s c (be st) of
        (err, c1, be1) \<Rightarrow> Ret err c1 (st\<lparr>be := be1\<rparr>))"

definition navPage :: "service \<Rightarrow> ResponseWriter \<Rightarrow> Request \<Rightarrow> state \<Rightarrow> log_record list \<Rightarrow> handled" where
  "navPage s = handle s (navPage_func s) SESSION HTML"

definition signinPage_func :: "service \<Rightarrow> client \<Rightarrow> state \<Rightarrow> result" where
  "signinPage_func s c st =
     (case SingleInstance s of
        (instance, False) \<Rightarrow>
          (case SigninPage s c (be st) of
             (err, c1, be1) \<Rightarrow> Ret err c1 (st\<lparr>be := be1\<rparr>))
      | (instance, True) \<Rightarrow>
          (case NewSession s c instance (be st) of
             ((url, sid, Some err), c1, be1) \<Rightarrow> Ret (Some err) c1 (st\<lparr>be := be1\<rparr>)
           | ((url, sid, None), c1, be1) \<Rightarrow>
               Ret None
                 (redirect (c1\<lparr>c_w := setSessionCookie (c_w c1) sid sessionExp (clock be1)\<rparr>) url)
                 (st\<lparr>be := be1\<rparr>)))"

definition signinPage :: "service \<Rightarrow> ResponseWriter \<Rightarrow> Request \<Rightarrow> state \<Rightarrow> log_record list \<Rightarrow> handled" where
  "signinPage s = handle s (signinPage_func s) NOAUTH HTML"

definition timelinePage_func :: "service \<Rightarrow> client \<Rightarrow> state \<Rightarrow> result" where
  "timelinePage_func s c st =
     (let tType = Var (c_r c) ''type'';
          q = Query (c_r c);
          instance = Get q ''instance'';
          maxID = Get q ''max_id'';
          minID = Get q ''min_id''
      in case TimelinePage s c tType instance maxID minID (be st) of
           (err, c1, be1) \<Rightarrow> Ret err c1 (st\<lparr>be := be1\<rparr>))"

definition timelinePage :: "service \<Rightarrow> ResponseWriter \<Rightarrow> Request \<Rightarrow> state \<Rightarrow> log_record list \<Rightarrow> handled" where
  "timelinePage s = handle s (timelinePage_func s) SESSION HTML"

definition defaultTimelinePage_func :: "service \<Rightarrow> client \<Rightarrow> state \<Rightarrow> result" where
  "defaultTimelinePage_func s c st =
     Ret None (redirect c ''/timeline/home'') st"

definition defaultTimelinePage :: "service \<Rightarrow> ResponseWriter \<Rightarrow> Request \<Rightarrow> state \<Rightarrow> log_record list \<Rightarrow> handled" where
  "defaultTimelinePage s = handle s (defaultTimelinePage_func s) SESSION HTML"

definition threadPage_func :: "service \<Rightarrow> client \<Rightarrow> state \<Rightarrow> result" where
  "threadPage_func s c st =
     (let id' = Var (c_r c) ''id'';
          q = Query (c_r c);
          reply = Get q ''reply''
      in case ThreadPage s c id' (1 < length reply) (be st) of
           (err, c1, be1) \<Rightarrow> Ret err c1 (st\<lparr>be := be1\<rparr>))"

definition threadPage :: "service \<Rightarrow> ResponseWriter \<Rightarrow> Request \<Rightarrow> state \<Rightarrow> log_record list \<Rightarrow> handled" where
  "threadPage s = handle s (threadPage_func s) SESSION HTML"

definition likedByPage_func :: "service \<Rightarrow> client \<Rightarrow> state \<Rightarrow> result" where
  "likedByPage_func s c st =
     (let id' = Var (c_r c) ''id''
      in case LikedByPage s c id' (be st) of
           (err, c1, be1) \<Rightarrow> Ret err c1 (st\<lparr>be := be1\<rparr>))"

definition likedByPage :: "service \<Rightarrow> ResponseWriter \<Rightarrow> Request \<Rightarrow> state \<Rightarrow> log_record list \<Rightarrow> handled" where
  "likedByPage s = handle s (likedByPage_func s) SESSION HTML"

definition retweetedByPage_func :: "service \<Rightarrow> client \<Rightarrow> state \<Rightarrow> result" where
  "retweetedByPage_func s c st =
     (let id' = Var (c_r c) ''id''
      in case RetweetedByPage s c id' (be st) of
           (err, c1, be1) \<Rightarrow> Ret err c1 (st\<lparr>be := be1\<rparr>))"

definition retweetedByPage :: "service \<Rightarrow> ResponseWriter \<Rightarrow> Request \<Rightarrow> state \<Rightarrow> log_record list \<Rightarrow> handled" where
  "retweetedByPage s = handle s (retweetedByPage_func s) SESSION HTML"

definition notificationsPage_func :: "service \<Rightarrow> client \<Rightarrow> state \<Rightarrow> result" where
  "notificationsPage_func s c st =
     (let q = Query (c_r c);
          maxID = Get q ''max_id'';
          minID = Get q ''min_id''
      in case NotificationPage s c maxID minID (be st) of
           (err, c1, be1) \<Rightarrow> Ret err c1 (st\<lparr>be := be1\<rparr>))"

definition notificationsPage :: "service \<Rightarrow> ResponseWriter \<Rightarrow> Request \<Rightarrow> state \<Rightarrow> log_record list \<Rightarrow> handled" where
  "notificationsPage s = handle s (notificationsPage_func s) SESSION HTML"

definition userPage_func :: "service \<Rightarrow> client \<Rightarrow> state \<Rightarrow> result" where
  "userPage_func s c st =
     (let id' = Var (c_r c) ''id'';
          pageType = Var (c_r c) ''type'';
          q = Query (c_r c);
          maxID = Get q ''max_id'';
          minID = Get q ''min_id''
      in case UserPage s c id' pageType maxID minID (be st) of
           (err, c1, be1) \<Rightarrow> Ret err c1 (st\<lparr>be := be1\<rparr>))"

definition userPage :: "service \<Rightarrow> ResponseWriter \<Rightarrow> Request \<Rightarrow> state \<Rightarrow> log_record list \<Rightarrow> handled" where
  "userPage s = handle s (userPage_func s) SESSION HTML"

definition userSearchPage_func :: "service \<Rightarrow> client \<Rightarrow> state \<Rightarrow> result" where
  "userSearchPage_func s c st =
     (let id' = Var (c_r c) ''id'';
          q = Query (c_r c);
          sq = Get q ''q'';
          offset = fst (Atoi (Get q ''offset''))
      in case UserSearchPage s c id' sq offset (be st) of
           (err, c1, be1) \<Rightarrow> Ret err c1 (st\<lparr>be := be1\<rparr>))"

definition userSearchPage :: "service \<Rightarrow> ResponseWriter \<Rightarrow> Request \<Rightarrow> state \<Rightarrow> log_record list \<Rightarrow> handled" where
  "userSearchPage s = handle s (userSearchPage_func s) SESSION HTML"

definition aboutPage_func :: "service \<Rightarrow> client \<Rightarrow> state \<Rightarrow> result" where
  "aboutPage_func s c st =
     (case AboutPage s c (be st) of
        (err, c1, be1) \<Rightarrow> Ret err c1 (st\<lparr>be := be1\<rparr>))"

definition aboutPage :: "service \<Rightarrow> ResponseWriter \<Rightarrow> Request \<Rightarrow> state \<Rightarrow> log_record list \<Rightarrow> handled" where
  "aboutPage s = handle s (aboutPage_func s) SESSION HTML"

definition emojisPage_func :: "service \<Rightarrow> client \<Rightarrow> state \<Rightarrow> result" where
  "emojisPage_func s c st =
     (case EmojiPage s c (be st) of
        (err, c1, be1) \<Rightarrow> Ret err c1 (st\<lparr>be := be1\<rparr>))"

definition emojisPage :: "service \<Rightarrow> ResponseWriter \<Rightarrow> Request \<Rightarrow> state \<Rightarrow> log_record list \<Rightarrow> handled" where
  "emojisPage s = handle s (emojisPage_func s) SESSION HTML"

definition searchPage_func :: "service \<Rightarrow> client \<Rightarrow> state \<Rightarrow> result" where
  "searchPage_func s c st =
     (let q = Query (c_r c);
          sq = Get q ''q'';
          qType = Get q ''type'';
          offset = fst (Atoi (Get q ''offset''))
      in case SearchPage s c sq qType offset (be st) of
           (err, c1, be1) \<Rightarrow> Ret err c1 (st\<lparr>be := be1\<rparr>))"


definition settingsPage_func :: "service \<Rightarrow> client \<Rightarrow> state \<Rightarrow> result" where
  "settingsPage_func s c st =
     (case SettingsPage s c (be st) of
        (err, c1, be1) \<Rightarrow> Ret err c1 (st\<lparr>be := be1\<rparr>))"

definition settingsPage :: "service \<Rightarrow> ResponseWriter \<Rightarrow> Request \<Rightarrow> state \<Rightarrow> log_record list \<Rightarrow> handled" where
  "settingsPage s = handle s (settingsPage_func s) SESSION HTML"

definition filtersPage_func :: "service \<Rightarrow> client \<Rightarrow> state \<Rightarrow> result" where
  "filtersPage_func s c st =
     (case FiltersPage s c (be st) of
        (err, c1, be1) \<Rightarrow> Ret err c1 (st\<lparr>be := be1\<rparr>))"

definition filtersPage :: "service \<Rightarrow> ResponseWriter \<Rightarrow> Request \<Rightarrow> state \<Rightarrow> log_record list \<Rightarrow> handled" where
  "filtersPage s = handle s (filtersPage_func s) SESSION HTML"

definition signin_func :: "service \<Rightarrow> client \<Rightarrow> state \<Rightarrow> result" where
  "signin_func s c st =
     (let instance = FormValue (c_r c) ''instance''
      in case NewSession s c instance (be st) of
           ((url, sid, Some err), c1, be1) \<Rightarrow> Ret (Some err) c1 (st\<lparr>be := be1\<rparr>)
         | ((url, sid, None), c1, be1) \<Rightarrow>
             Ret None
               (redirect (c1\<lparr>c_w := setSessionCookie (c_w c1) sid sessionExp (clock be1)\<rparr>) url)
               (st\<lparr>be := be1\<rparr>))"

definition signin :: "service \<Rightarrow> ResponseWriter \<Rightarrow> Request \<Rightarrow> state \<Rightarrow> log_record list \<Rightarrow> handled" where
  "signin s = handle s (signin_func s) NOAUTH HTML"

definition oauthCallback_func :: "service \<Rightarrow> client \<Rightarrow> state \<Rightarrow> result" where
  "oauthCallback_func s c st =
     (let q = Query (c_r c);
          token = Get q ''code''
      in case Signin s c token (be st) of
           (Some err, c1, be1) \<Rightarrow> Ret (Some err) c1 (st\<lparr>be := be1\<rparr>)
         | (None, c1, be1) \<Rightarrow>
             Ret None (redirect c1 ''/'') (st\<lparr>be := be1\<rparr>))"

definition oauthCallback :: "service \<Rightarrow> ResponseWriter \<Rightarrow> Request \<Rightarrow> state \<Rightarrow> log_record list \<Rightarrow> handled" where
  "oauthCallback s = handle s (oauthCallback_func s) SESSION HTML"

text \<open>
  \<^verbatim>\<open>c.r.MultipartForm.File["attachments"]\<close> dereferences the pointer
  \<^verbatim>\<open>c.r.MultipartForm\<close>: a nil pointer panics; a missing key of the map gives the nil
  slice.
\<close>

definition post_func :: "service \<Rightarrow> client \<Rightarrow> state \<Rightarrow> result" where
  "post_func s c st =
     (let content = FormValue (c_r c) ''content'';
          replyToID = FormValue (c_r c) ''reply_to_id'';
          format = FormValue (c_r c) ''format'';
          visibility = FormValue (c_r c) ''visibility'';
          isNSFW = (FormValue (c_r c) ''is_nsfw'' = ''true'')
      in case MultipartForm (c_r c) of
           None \<Rightarrow> Panicked c st
         | Some mf \<Rightarrow>
             (let files = (case map_of (File mf) ''attachments'' of None \<Rightarrow> [] | Some fs \<Rightarrow> fs)
              in case Post s c content replyToID format visibility isNSFW files (be st) of
                   ((id', Some err), c1, be1) \<Rightarrow> Ret (Some err) c1 (st\<lparr>be := be1\<rparr>)
                 | ((id', None), c1, be1) \<Rightarrow>
                     (let location =
                            (if 0 < length replyToID
                             then ''/thread/'' @ replyToID @ ''#status-'' @ id'
                             else FormValue (c_r c1) ''referrer'')
                      in Ret None (redirect c1 location) (st\<lparr>be := be1\<rparr>))))"

definition post :: "service \<Rightarrow> ResponseWriter \<Rightarrow> Request \<Rightarrow> state \<Rightarrow> log_record list \<Rightarrow> handled" where
  "post s = handle s (post_func s) CSRF HTML"

definition like_func :: "service \<Rightarrow> client \<Rightarrow> state \<Rightarrow> result" where
  "like_func s c st =
     (let id' = Var (c_r c) ''id'';
          rid = FormValue (c_r c) ''retweeted_by_id''
      in case Like s c id' (be st) of
           ((count, Some err), c1, be1) \<Rightarrow> Ret (Some err) c1 (st\<lparr>be := be1\<rparr>)
         | ((count, None), c1, be1) \<Rightarrow>
             (let id'' = (if 0 < length rid then rid else id')
              in Ret None
                   (redirect c1 (FormValue (c_r c1) ''referrer'' @ ''#status-'' @ id''))
                   (st\<lparr>be := be1\<rparr>)))"

definition like :: "service \<Rightarrow> ResponseWriter \<Rightarrow> Request \<Rightarrow> state \<Rightarrow> log_record list \<Rightarrow> handled" where
  "like s = handle s (like_func s) CSRF HTML"

definition unlike_func :: "service \<Rightarrow> client \<Rightarrow> state \<Rightarrow> result" where
  "unlike_func s c st =
     (let id' = Var (c_r c) ''id'';
          rid = FormValue (c_r c) ''retweeted_by_id''
      in case UnLike s c id' (be st) of
           ((count, Some err), c1, be1) \<Rightarrow> Ret (Some err) c1 (st\<lparr>be := be1\<rparr>)
         | ((count, None), c1, be1) \<Rightarrow>
             (let id'' = (if 0 < length rid then rid else id')
              in Ret None
                   (redirect c1 (FormValue (c_r c1) ''referrer'' @ ''#status-'' @ id''))
                   (st\<lparr>be := be1\<rparr>)))"

definition unlike :: "service \<Rightarrow> ResponseWriter \<Rightarrow> Request \<Rightarrow> state \<Rightarrow> log_record list \<Rightarrow> handled" where
  "unlike s = handle s (unlike_func s) CSRF HTML"

definition retweet_func :: "service \<Rightarrow> client \<Rightarrow> state \<Rightarrow> result" where
  "retweet_func s c st =
     (let id' = Var (c_r c) ''id'';
          rid = FormValue (c_r c) ''retweeted_by_id''
      in case Retweet s c id' (be st) of
           ((count, Some err), c1, be1) \<Rightarrow> Ret (Some err) c1 (st\<lparr>be := be1\<rparr>)
         | ((count, None), c1, be1) \<Rightarrow>
             (let id'' = (if 0 < length rid then rid else id')
              in Ret None
                   (redirect c1 (FormValue (c_r c1) ''referrer'' @ ''#status-'' @ id''))
                   (st\<lparr>be := be1\<rparr>)))"

definition retweet :: "service \<Rightarrow> ResponseWriter \<Rightarrow> Request \<Rightarrow> state \<Rightarrow> log_record list \<Rightarrow> handled" where
  "retweet s = handle s (retweet_func s) CSRF HTML"

definition unretweet_func :: "service \<Rightarrow> client \<Rightarrow> state \<Rightarrow> result" where
  "unretweet_func s c st =
     (let id' = Var (c_r c) ''id'';
          rid = FormValue (c_r c) ''retweeted_by_id''
      in case UnRetweet s c id' (be st) of
           ((count, Some err), c1, be1) \<Rightarrow> Ret (Some err) c1 (st\<lparr>be := be1\<rparr>)
         | ((count, None), c1, be1) \<Rightarrow>
             (let id'' = (if 0 < length rid then rid else id')
              in Ret None
                   (redirect c1 (FormValue (c_r c1) ''referrer'' @ ''#status-'' @ id''))
                   (st\<lparr>be := be1\<rparr>)))"

definition unretweet :: "service \<Rightarrow> ResponseWriter \<Rightarrow> Request \<Rightarrow> state \<Rightarrow> log_record list \<Rightarrow> handled" where
  "unretweet s = handle s (unretweet_func s) CSRF HTML"

text \<open>\<^verbatim>\<open>c.r.PostForm["choices"]\<close>: the nil slice when the form has no such key.\<close>

definition vote_func :: "service \<Rightarrow> client \<Rightarrow> state \<Rightarrow> result" where
  "vote_func s c st =
     (let id' = Var (c_r c) ''id'';
          statusID = FormValue (c_r c) ''status_id'';
          choices = (case map_of (PostForm (c_r c)) ''choices'' of None \<Rightarrow> [] | Some vs \<Rightarrow> vs)
      in case Vote s c id' choices (be st) of
           (Some err, c1, be1) \<Rightarrow> Ret (Some err) c1 (st\<lparr>be := be1\<rparr>)
         | (None, c1, be1) \<Rightarrow>
             Ret None (redirect c1 (FormValue (c_r c1) ''referrer'' @ ''#status-'' @ statusID)) (st\<lparr>be := be1\<rparr>))"

definition vote :: "service \<Rightarrow> ResponseWriter \<Rightarrow> Request \<Rightarrow> state \<Rightarrow> log_record list \<Rightarrow> handled" where
  "vote s = handle s (vote_func s) CSRF HTML"

text \<open>
  The pointer \<^verbatim>\<open>reblogs *bool\<close> stays nil unless the query has a non-empty
  \<open>reblogs\<close>; then it points to whether the first value is \<open>true\<close>.
\<close>

definition follow_func :: "service \<Rightarrow> client \<Rightarrow> state \<Rightarrow> result" where
  "follow_func s c st =
     (let id' = Var (c_r c) ''id'';
          q = Query (c_r c);
          reblogs = (case map_of q ''reblogs'' of Some (r0 # rs) \<Rightarrow> Some (r0 = ''true'') | _ \<Rightarrow> None)
      in case Follow s c id' reblogs (be st) of
           (Some err, c1, be1) \<Rightarrow> Ret (Some err) c1 (st\<lparr>be := be1\<rparr>)
         | (None, c1, be1) \<Rightarrow>
             Ret None (redirect c1 (FormValue (c_r c1) ''referrer'')) (st\<lparr>be := be1\<rparr>))"

definition follow :: "service \<Rightarrow> ResponseWriter \<Rightarrow> Request \<Rightarrow> state \<Rightarrow> log_record list \<Rightarrow> handled" where
  "follow s = handle s (follow_func s) CSRF HTML"

definition unfollow_func :: "service \<Rightarrow> client \<Rightarrow> state \<Rightarrow> result" where
  "unfollow_func s c st =
     (let id' = Var (c_r c) ''id''
      in case UnFollow s c id' (be st) of
           (Some err, c1, be1) \<Rightarrow> Ret (Some err) c1 (st\<lparr>be := be1\<rparr>)
         | (None, c1, be1) \<Rightarrow>
             Ret None (redirect c1 (FormValue (c_r c1) ''referrer'')) (st\<lparr>be := be1\<rparr>))"

definition unfollow :: "service \<Rightarrow> ResponseWriter \<Rightarrow> Request \<Rightarrow> state \<Rightarrow> log_record list \<Rightarrow> handled" where
  "unfollow s = handle s (unfollow_func s) CSRF HTML"

definition accept_func :: "service \<Rightarrow> client \<Rightarrow> state \<Rightarrow> result" where
  "accept_func s c st =
     (let id' = Var (c_r c) ''id''
      in case Accept s c id' (be st) of
           (Some err, c1, be1) \<Rightarrow> Ret (Some err) c1 (st\<lparr>be := be1\<rparr>)
         | (None, c1, be1) \<Rightarrow>
             Ret None (redirect c1 (FormValue (c_r c1) ''referrer'')) (st\<lparr>be := be1\<rparr>))"

definition accept :: "service \<Rightarrow> ResponseWriter \<Rightarrow> Request \<Rightarrow> state \<Rightarrow> log_record list \<Rightarrow> handled" where
  "accept s = handle s (accept_func s) CSRF HTML"

definition reject_func :: "service \<Rightarrow> client \<Rightarrow> state \<Rightarrow> result" where
  "reject_func s c st =
     (let id' = Var (c_r c) ''id''
      in case Reject s c id' (be st) of
           (Some err, c1, be1) \<Rightarrow> Ret (Some err) c1 (st\<lparr>be := be1\<rparr>)
         | (None, c1, be1) \<Rightarrow>
             Ret None (redirect c1 (FormValue (c_r c1) ''referrer'')) (st\<lparr>be := be1\<rparr>))"

definition reject :: "service \<Rightarrow> ResponseWriter \<Rightarrow> Request \<Rightarrow> state \<Rightarrow> log_record list \<Rightarrow> handled" where
  "reject s = handle s (reject_func s) CSRF HTML"

definition mute_func :: "service \<Rightarrow> client \<Rightarrow> state \<Rightarrow> result" where
  "mute_func s c st =
     (let id' = Var (c_r c) ''id''
      in case Mute s c id' (be st) of
           (Some err, c1, be1) \<Rightarrow> Ret (Some err) c1 (st\<lparr>be := be1\<rparr>)
         | (None, c1, be1) \<Rightarrow>
             Ret None (redirect c1 (FormValue (c_r c1) ''referrer'')) (st\<lparr>be := be1\<rparr>))"

definition mute :: "service \<Rightarrow> ResponseWriter \<Rightarrow> Request \<Rightarrow> state \<Rightarrow> log_record list \<Rightarrow> handled" where
  "mute s = handle s (mute_func s) CSRF HTML"

definition unMute_func :: "service \<Rightarrow> client \<Rightarrow> state \<Rightarrow> result" where
  "unMute_func s c st =
     (let id' = Var (c_r c) ''id''
      in case UnMute s c id' (be st) of
           (Some err, c1, be1) \<Rightarrow> Ret (Some err) c1 (st\<lparr>be := be1\<rparr>)
         | (None, c1, be1) \<Rightarrow>
             Ret None (redirect c1 (FormValue (c_r c1) ''referrer'')) (st\<lparr>be := be1\<rparr>))"

definition unMute :: "service \<Rightarrow> ResponseWriter \<Rightarrow> Request \<Rightarrow> state \<Rightarrow> log_record list \<Rightarrow> handled" where
  "unMute s = handle s (unMute_func s) CSRF HTML"

definition block_func :: "service \<Rightarrow> client \<Rightarrow> state \<Rightarrow> result" where
  "block_func s c st =
     (let id' = Var (c_r c) ''id''
      in case Block s c id' (be st) of
           (Some err, c1, be1) \<Rightarrow> Ret (Some err) c1 (st\<lparr>be := be1\<rparr>)
         | (None, c1, be1) \<Rightarrow>
             Ret None (redirect c1 (FormValue (c_r c1) ''referrer'')) (st\<lparr>be := be1\<rparr>))"

definition block :: "service \<Rightarrow> ResponseWriter \<Rightarrow> Request \<Rightarrow> state \<Rightarrow> log_record list \<Rightarrow> handled" where
  "block s = handle s (block_func s) CSRF HTML"

definition unBlock_func :: "service \<Rightarrow> client \<Rightarrow> state \<Rightarrow> result" where
  "unBlock_func s c st =
     (let id' = Var (c_r c) ''id''
      in case UnBlock s c id' (be st) of
           (Some err, c1, be1) \<Rightarrow> Ret (Some err) c1 (st\<lparr>be := be1\<rparr>)
         | (None, c1, be1) \<Rightarrow>
             Ret None (redirect c1 (FormValue (c_r c1) ''referrer'')) (st\<lparr>be := be1\<rparr>))"

definition unBlock :: "service \<Rightarrow> ResponseWriter \<Rightarrow> Request \<Rightarrow> state \<Rightarrow> log_record list \<Rightarrow> handled" where
  "unBlock s = handle s (unBlock_func s) CSRF HTML"

definition subscribe_func :: "service \<Rightarrow> client \<Rightarrow> state \<Rightarrow> result" where
  "subscribe_func s c st =
     (let id' = Var (c_r c) ''id''
      in case Subscribe s c id' (be st) of
           (Some err, c1, be1) \<Rightarrow> Ret (Some err) c1 (st\<lparr>be := be1\<rparr>)
         | (None, c1, be1) \<Rightarrow>
             Ret None (redirect c1 (FormValue (c_r c1) ''referrer'')) (st\<lparr>be := be1\<rparr>))"

definition subscribe :: "service \<Rightarrow> ResponseWriter \<Rightarrow> Request \<Rightarrow> state \<Rightarrow> log_record list \<Rightarrow> handled" where
  "subscribe s = handle s (subscribe_func s) CSRF HTML"

definition unSubscribe_func :: "service \<Rightarrow> client \<Rightarrow> state \<Rightarrow> result" where
  "unSubscribe_func s c st =
     (let id' = Var (c_r c) ''id''
      in case UnSubscribe s c id' (be st) of
           (Some err, c1, be1) \<Rightarrow> Ret (Some err) c1 (st\<lparr>be := be1\<rparr>)
         | (None, c1, be1) \<Rightarrow>
             Ret None (redirect c1 (FormValue (c_r c1) ''referrer'')) (st\<lparr>be := be1\<rparr>))"

definition unSubscribe :: "service \<Rightarrow> ResponseWriter \<Rightarrow> Request \<Rightarrow> state \<Rightarrow> log_record list \<Rightarrow> handled" where
  "unSubscribe s = handle s (unSubscribe_func s) CSRF HTML"

definition settings_func :: "service \<Rightarrow> client \<Rightarrow> state \<Rightarrow> result" where
  "settings_func s c st =
     (let visibility = FormValue (c_r c) ''visibility'';
          format = FormValue (c_r c) ''format'';
          copyScope = (FormValue (c_r c) ''copy_scope'' = ''true'');
          threadInNewTab = (FormValue (c_r c) ''thread_in_new_tab'' = ''true'');
          hideAttachments = (FormValue (c_r c) ''hide_attachments'' = ''true'');
          maskNSFW = (FormValue (c_r c) ''mask_nsfw'' = ''true'');
          ni = fst (Atoi (FormValue (c_r c) ''notification_interval''));
          fluorideMode = (FormValue (c_r c) ''fluoride_mode'' = ''true'');
          darkMode = (FormValue (c_r c) ''dark_mode'' = ''true'');
          antiDopamineMode = (FormValue (c_r c) ''anti_dopamine_mode'' = ''true'');
          css = FormValue (c_r c) ''css'';
          settings' =
            \<lparr>DefaultVisibility = visibility,
             DefaultFormat = format,
             CopyScope = copyScope,
             ThreadInNewTab = threadInNewTab,
             HideAttachments = hideAttachments,
             MaskNSFW = maskNSFW,
             NotificationInterval = ni,
             FluorideMode = fluorideMode,
             DarkMode = darkMode,
             AntiDopamineMode = antiDopamineMode,
             CSS = css\<rparr>
      in case SaveSettings s c settings' (be st) of
           (Some err, c1, be1) \<Rightarrow> Ret (Some err) c1 (st\<lparr>be := be1\<rparr>)
         | (None, c1, be1) \<Rightarrow> Ret None (redirect c1 ''/'') (st\<lparr>be := be1\<rparr>))"

definition settings :: "service \<Rightarrow> ResponseWriter \<Rightarrow> Request \<Rightarrow> state \<Rightarrow> log_record list \<Rightarrow> handled" where
  "settings s = handle s (settings_func s) CSRF HTML"

definition muteConversation_func :: "service \<Rightarrow> client \<Rightarrow> state \<Rightarrow> result" where
  "muteConversation_func s c st =
     (let id' = Var (c_r c) ''id''
      in case MuteConversation s c id' (be st) of
           (Some err, c1, be1) \<Rightarrow> Ret (Some err) c1 (st\<lparr>be := be1\<rparr>)
         | (None, c1, be1) \<Rightarrow>
             Ret None (redirect c1 (FormValue (c_r c1) ''referrer'')) (st\<lparr>be := be1\<rparr>))"

definition muteConversation :: "service \<Rightarrow> ResponseWriter \<Rightarrow> Request \<Rightarrow> state \<Rightarrow> log_record list \<Rightarrow> handled" where
  "muteConversation s = handle s (muteConversation_func s) CSRF HTML"

definition unMuteConversation_func :: "service \<Rightarrow> client \<Rightarrow> state \<Rightarrow> result" where
  "unMuteConversation_func s c st =
     (let id' = Var (c_r c) ''id''
      in case UnMuteConversation s c id' (be st) of
           (Some err, c1, be1) \<Rightarrow> Ret (Some err) c1 (st\<lparr>be := be1\<rparr>)
         | (None, c1, be1) \<Rightarrow>
             Ret None (redirect c1 (FormValue (c_r c1) ''referrer'')) (st\<lparr>be := be1\<rparr>))"

definition unMuteConversation :: "service \<Rightarrow> ResponseWriter \<Rightarrow> Request \<Rightarrow> state \<Rightarrow> log_record list \<Rightarrow> handled" where
  "unMuteConversation s = handle s (unMuteConversation_func s) CSRF HTML"

definition delete_func :: "service \<Rightarrow> client \<Rightarrow> state \<Rightarrow> result" where
  "delete_func s c st =
     (let id' = Var (c_r c) ''id''
      in case Delete s c id' (be st) of
           (Some err, c1, be1) \<Rightarrow> Ret (Some err) c1 (st\<lparr>be := be1\<rparr>)
         | (None, c1, be1) \<Rightarrow>
             Ret None (redirect c1 (FormValue (c_r c1) ''referrer'')) (st\<lparr>be := be1\<rparr>))"

definition delete :: "service \<Rightarrow> ResponseWriter \<Rightarrow> Request \<Rightarrow> state \<Rightarrow> log_record list \<Rightarrow> handled" where
  "delete s = handle s (delete_func s) CSRF HTML"

definition readNotifications_func :: "service \<Rightarrow> client \<Rightarrow> state \<Rightarrow> result" where
  "readNotifications_func s c st =
     (let q = Query (c_r c);
          maxID = Get q ''max_id''
      in case ReadNotifications s c maxID (be st) of
           (Some err, c1, be1) \<Rightarrow> Ret (Some err) c1 (st\<lparr>be := be1\<rparr>)
         | (None, c1, be1) \<Rightarrow>
             Ret None (redirect c1 (FormValue (c_r c1) ''referrer'')) (st\<lparr>be := be1\<rparr>))"

definition readNotifications :: "service \<Rightarrow> ResponseWriter \<Rightarrow> Request \<Rightarrow> state \<Rightarrow> log_record list \<Rightarrow> handled" where
  "readNotifications s = handle s (readNotifications_func s) CSRF HTML"

definition bookmark_func :: "service \<Rightarrow> client \<Rightarrow> state \<Rightarrow> result" where
  "bookmark_func s c st =
     (let id' = Var (c_r c) ''id'';
          rid = FormValue (c_r c) ''retweeted_by_id''
      in case Bookmark s c id' (be st) of
           (Some err, c1, be1) \<Rightarrow> Ret (Some err) c1 (st\<lparr>be := be1\<rparr>)
         | (None, c1, be1) \<Rightarrow>
             (let id'' = (if 0 < length rid then rid else id')
              in Ret None
                   (redirect c1 (FormValue (c_r c1) ''referrer'' @ ''#status-'' @ id''))
                   (st\<lparr>be := be1\<rparr>)))"

definition bookmark :: "service \<Rightarrow> ResponseWriter \<Rightarrow> Request \<Rightarrow> state \<Rightarrow> log_record list \<Rightarrow> handled" where
  "bookmark s = handle s (bookmark_func s) CSRF HTML"

definition unBookmark_func :: "service \<Rightarrow> client \<Rightarrow> state \<Rightarrow> result" where
  "unBookmark_func s c st =
     (let id' = Var (c_r c) ''id'';
          rid = FormValue (c_r c) ''retweeted_by_id''
      in case UnBookmark s c id' (be st) of
           (Some err, c1, be1) \<Rightarrow> Ret (Some err) c1 (st\<lparr>be := be1\<rparr>)
         | (None, c1, be1) \<Rightarrow>
             (let id'' = (if 0 < length rid then rid else id')
              in Ret None
                   (redirect c1 (FormValue (c_r c1) ''referrer'' @ ''#status-'' @ id''))
                   (st\<lparr>be := be1\<rparr>)))"

definition unBookmark :: "service \<Rightarrow> ResponseWriter \<Rightarrow> Request \<Rightarrow> state \<Rightarrow> log_record list \<Rightarrow> handled" where
  "unBookmark s = handle s (unBookmark_func s) CSRF HTML"

definition filter_route_func :: "service \<Rightarrow> client \<Rightarrow> state \<Rightarrow> result" where
  "filter_route_func s c st =
     (let phrase = FormValue (c_r c) ''phrase'';
          wholeWord = (FormValue (c_r c) ''whole_word'' = ''true'')
      in case Filter s c phrase wholeWord (be st) of
           (Some err, c1, be1) \<Rightarrow> Ret (Some err) c1 (st\<lparr>be := be1\<rparr>)
         | (None, c1, be1) \<Rightarrow>
             Ret None (redirect c1 (FormValue (c_r c1) ''referrer'')) (st\<lparr>be := be1\<rparr>))"

definition filter_route :: "service \<Rightarrow> ResponseWriter \<Rightarrow> Request \<Rightarrow> state \<Rightarrow> log_record list \<Rightarrow> handled" where
  "filter_route s = handle s (filter_route_func s) CSRF HTML"

definition unFilter_func :: "service \<Rightarrow> client \<Rightarrow> state \<Rightarrow> result" where
  "unFilter_func s c st =
     (let id' = Var (c_r c) ''id''
      in case UnFilter s c id' (be st) of
           (Some err, c1, be1) \<Rightarrow> Ret (Some err) c1 (st\<lparr>be := be1\<rparr>)
         | (None, c1, be1) \<Rightarrow>
             Ret None (redirect c1 (FormValue (c_r c1) ''referrer'')) (st\<lparr>be := be1\<rparr>))"

definition unFilter :: "service \<Rightarrow> ResponseWriter \<Rightarrow> Request \<Rightarrow> state \<Rightarrow> log_record list \<Rightarrow> handled" where
  "unFilter s = handle s (unFilter_func s) CSRF HTML"

text \<open>The error value of \<^verbatim>\<open>s.Signout(c)\<close> is dropped: the call is a statement.\<close>

definition signout_func :: "service \<Rightarrow> client \<Rightarrow> state \<Rightarrow> result" where
  "signout_func s c st =
     (case Signout s c (be st) of
        (err, c1, be1) \<Rightarrow>
          Ret None
            (redirect (c1\<lparr>c_w := setSessionCookie (c_w c1) [] 0 (clock be1)\<rparr>) ''/'')
            (st\<lparr>be := be1\<rparr>))"

definition signout :: "service \<Rightarrow> ResponseWriter \<Rightarrow> Request \<Rightarrow> state \<Rightarrow> log_record list \<Rightarrow> handled" where
  "signout s = handle s (signout_func s) CSRF HTML"

definition fLike_func :: "service \<Rightarrow> client \<Rightarrow> state \<Rightarrow> result" where
  "fLike_func s c st =
     (let id' = Var (c_r c) ''id''
      in case Like s c id' (be st) of
           ((count, Some err), c1, be1) \<Rightarrow> Ret (Some err) c1 (st\<lparr>be := be1\<rparr>)
         | ((count, None), c1, be1) \<Rightarrow>
             (case writeJson c1 (JInt count) of
                (err, c2) \<Rightarrow> Ret err c2 (st\<lparr>be := be1\<rparr>)))"


definition fUnlike_func :: "service \<Rightarrow> client \<Rightarrow> state \<Rightarrow> result" where
  "fUnlike_func s c st =
     (let id' = Var (c_r c) ''id''
      in case UnLike s c id' (be st) of
           ((count, Some err), c1, be1) \<Rightarrow> Ret (Some err) c1 (st\<lparr>be := be1\<rparr>)
         | ((count, None), c1, be1) \<Rightarrow>
             (case writeJson c1 (JInt count) of
                (err, c2) \<Rightarrow> Ret err c2 (st\<lparr>be := be1\<rparr>)))"

definition fUnlike :: "service \<Rightarrow> ResponseWriter \<Rightarrow> Request \<Rightarrow> state \<Rightarrow> log_record list \<Rightarrow> handled" where
  "fUnlike s = handle s (fUnlike_func s) CSRF JSON"

definition fRetweet_func :: "service \<Rightarrow> client \<Rightarrow> state \<Rightarrow> result" where
  "fRetweet_func s c st =
     (let id' = Var (c_r c) ''id''
      in case Retweet s c id' (be st) of
           ((count, Some err), c1, be1) \<Rightarrow> Ret (Some err) c1 (st\<lparr>be := be1\<rparr>)
         | ((count, None), c1, be1) \<Rightarrow>
             (case writeJson c1 (JInt count) of
                (err, c2) \<Rightarrow> Ret err c2 (st\<lparr>be := be1\<rparr>)))"

definition fRetweet :: "service \<Rightarrow> ResponseWriter \<Rightarrow> Request \<Rightarrow> state \<Rightarrow> log_record list \<Rightarrow> handled" where
  "fRetweet s = handle s (fRetweet_func s) CSRF JSON"

definition fUnretweet_func :: "service \<Rightarrow> client \<Rightarrow> state \<Rightarrow> result" where
  "fUnretweet_func s c st =
     (let id' = Var (c_r c) ''id''
      in case UnRetweet s c id' (be st) of
           ((count, Some err), c1, be1) \<Rightarrow> Ret (Some err) c1 (st\<lparr>be := be1\<rparr>)
         | ((count, None), c1, be1) \<Rightarrow>
             (case writeJson c1 (JInt count) of
                (err, c2) \<Rightarrow> Ret err c2 (st\<lparr>be := be1\<rparr>)))"

definition fUnretweet :: "service \<Rightarrow> ResponseWriter \<Rightarrow> Request \<Rightarrow> state \<Rightarrow> log_record list \<Rightarrow> handled" where
  "fUnretweet s = handle s (fUnretweet_func s) CSRF JSON"

text \<open>
  The routes that \<^verbatim>\<open>NewHandler\<close> registers with \<^verbatim>\<open>r.HandleFunc\<close>, in the order of
  the source: the method, the path template, the function given to \<^verbatim>\<open>handle\<close>, its
  authentication level and its response type. (The file server under \<^verbatim>\<open>/static\<close> is
  registered beside them without \<^verbatim>\<open>handle\<close>; it is not embedded.)
\<close>

record route =
  r_method :: string
  r_path :: string
  r_func :: "client \<Rightarrow> state \<Rightarrow> result"
  r_at :: auth_level
  r_rt :: resp_type

definition routes :: "service \<Rightarrow> route list" where
  "routes s =
     [\<lparr>r_method = ''GET'', r_path = ''/'', r_func = rootPage_func s,
        r_at = NOAUTH, r_rt = HTML\<rparr>,
      \<lparr>r_method = ''GET'', r_path = ''/nav'', r_func = navPage_func s,
        r_at = SESSION, r_rt = HTML\<rparr>,
      \<lparr>r_method = ''GET'', r_path = ''/signin'', r_func = signinPage_func s,
        r_at = NOAUTH, r_rt = HTML\<rparr>,
      \<lparr>r_method = ''GET'', r_path = ''/timeline/{type}'', r_func = timelinePage_func s,
        r_at = SESSION, r_rt = HTML\<rparr>,
      \<lparr>r_method = ''GET'', r_path = ''/timeline'', r_func = defaultTimelinePage_func s,
        r_at = SESSION, r_rt = HTML\<rparr>,
      \<lparr>r_method = ''GET'', r_path = ''/thread/{id}'', r_func = threadPage_func s,
        r_at = SESSION, r_rt = HTML\<rparr>,
      \<lparr>r_method = ''GET'', r_path = ''/likedby/{id}'', r_func = likedByPage_func s,
        r_at = SESSION, r_rt = HTML\<rparr>,
      \<lparr>r_method = ''GET'', r_path = ''/retweetedby/{id}'', r_func = retweetedByPage_func s,
        r_at = SESSION, r_rt = HTML\<rparr>,
      \<lparr>r_method = ''GET'', r_path = ''/notifications'', r_func = notificationsPage_func s,
        r_at = SESSION, r_rt = HTML\<rparr>,
      \<lparr>r_method = ''GET'', r_path = ''/user/{id}'', r_func = userPage_func s,
        r_at = SESSION, r_rt = HTML\<rparr>,
      \<lparr>r_method = ''GET'', r_path = ''/user/{id}/{type}'', r_func = userPage_func s,
        r_at = SESSION, r_rt = HTML\<rparr>,
      \<lparr>r_method = ''GET'', r_path = ''/usersearch/{id}'', r_func = userSearchPage_func s,
        r_at = SESSION, r_rt = HTML\<rparr>,
      \<lparr>r_method = ''GET'', r_path = ''/about'', r_func = aboutPage_func s,
        r_at = SESSION, r_rt = HTML\<rparr>,
      \<lparr>r_method = ''GET'', r_path = ''/emojis'', r_func = emojisPage_func s,
        r_at = SESSION, r_rt = HTML\<rparr>,
      \<lparr>r_method = ''GET'', r_path = ''/search'', r_func = searchPage_func s,
        r_at = SESSION, r_rt = HTML\<rparr>,
      \<lparr>r_method = ''GET'', r_path = ''/settings'', r_func = settingsPage_func s,
        r_at = SESSION, r_rt = HTML\<rparr>,
      \<lparr>r_method = ''GET'', r_path = ''/filters'', r_func = filtersPage_func s,
        r_at = SESSION, r_rt = HTML\<rparr>,
      \<lparr>r_method = ''POST'', r_path = ''/signin'', r_func = signin_func s,
        r_at = NOAUTH, r_rt = HTML\<rparr>,
      \<lparr>r_method = ''GET'', r_path = ''/oauth_callback'', r_func = oauthCallback_func s,
        r_at = SESSION, r_rt = HTML\<rparr>,
      \<lparr>r_method = ''POST'', r_path = ''/post'', r_func = post_func s,
        r_at = CSRF, r_rt = HTML\<rparr>,
      \<lparr>r_method = ''POST'', r_path = ''/like/{id}'', r_func = like_func s,
        r_at = CSRF, r_rt = HTML\<rparr>,
      \<lparr>r_method = ''POST'', r_path = ''/unlike/{id}'', r_func = unlike_func s,
        r_at = CSRF, r_rt = HTML\<rparr>,
      \<lparr>r_method = ''POST'', r_path = ''/retweet/{id}'', r_func = retweet_func s,
        r_at = CSRF, r_rt = HTML\<rparr>,
      \<lparr>r_method = ''POST'', r_path = ''/unretweet/{id}'', r_func = unretweet_func s,
        r_at = CSRF, r_rt = HTML\<rparr>,
      \<lparr>r_method = ''POST'', r_path = ''/vote/{id}'', r_func = vote_func s,
        r_at = CSRF, r_rt = HTML\<rparr>,
      \<lparr>r_method = ''POST'', r_path = ''/follow/{id}'', r_func = follow_func s,
        r_at = CSRF, r_rt = HTML\<rparr>,
      \<lparr>r_method = ''POST'', r_path = ''/unfollow/{id}'', r_func = unfollow_func s,
        r_at = CSRF, r_rt = HTML\<rparr>,
      \<lparr>r_method = ''POST'', r_path = ''/accept/{id}'', r_func = accept_func s,
        r_at = CSRF, r_rt = HTML\<rparr>,
      \<lparr>r_method = ''POST'', r_path = ''/reject/{id}'', r_func = reject_func s,
        r_at = CSRF, r_rt = HTML\<rparr>,
      \<lparr>r_method = ''POST'', r_path = ''/mute/{id}'', r_func = mute_func s,
        r_at = CSRF, r_rt = HTML\<rparr>,
      \<lparr>r_method = ''POST'', r_path = ''/unmute/{id}'', r_func = unMute_func s,
        r_at = CSRF, r_rt = HTML\<rparr>,
      \<lparr>r_method = ''POST'', r_path = ''/block/{id}'', r_func = block_func s,
        r_at = CSRF, r_rt = HTML\<rparr>,
      \<lparr>r_method = ''POST'', r_path = ''/unblock/{id}'', r_func = unBlock_func s,
        r_at = CSRF, r_rt = HTML\<rparr>,
      \<lparr>r_method = ''POST'', r_path = ''/subscribe/{id}'', r_func = subscribe_func s,
        r_at = CSRF, r_rt = HTML\<rparr>,
      \<lparr>r_method = ''POST'', r_path = ''/unsubscribe/{id}'', r_func = unSubscribe_func s,
        r_at = CSRF, r_rt = HTML\<rparr>,
      \<lparr>r_method = ''POST'', r_path = ''/settings'', r_func = settings_func s,
        r_at = CSRF, r_rt = HTML\<rparr>,
      \<lparr>r_method = ''POST'', r_path = ''/muteconv/{id}'', r_func = muteConversation_func s,
        r_at = CSRF, r_rt = HTML\<rparr>,
      \<lparr>r_method = ''POST'', r_path = ''/unmuteconv/{id}'', r_func = unMuteConversation_func s,
        r_at = CSRF, r_rt = HTML\<rparr>,
      \<lparr>r_method = ''POST'', r_path = ''/delete/{id}'', r_func = delete_func s,
        r_at = CSRF, r_rt = HTML\<rparr>,
      \<lparr>r_method = ''POST'', r_path = ''/notifications/read'', r_func = readNotifications_func s,
        r_at = CSRF, r_rt = HTML\<rparr>,
      \<lparr>r_method = ''POST'', r_path = ''/bookmark/{id}'', r_func = bookmark_func s,
        r_at = CSRF, r_rt = HTML\<rparr>,
      \<lparr>r_method = ''POST'', r_path = ''/unbookmark/{id}'', r_func = unBookmark_func s,
        r_at = CSRF, r_rt = HTML\<rparr>,
      \<lparr>r_method = ''POST'', r_path = ''/filter'', r_func = filter_route_func s,
        r_at = CSRF, r_rt = HTML\<rparr>,
      \<lparr>r_method = ''POST'', r_path = ''/unfilter/{id}'', r_func = unFilter_func s,
        r_at = CSRF, r_rt = HTML\<rparr>,
      \<lparr>r_method = ''POST'', r_path = ''/signout'', r_func = signout_func s,
        r_at = CSRF, r_rt = HTML\<rparr>,
      \<lparr>r_method = ''POST'', r_path = ''/fluoride/like/{id}'', r_func = fLike_func s,
        r_at = CSRF, r_rt = JSON\<rparr>,
      \<lparr>r_method = ''POST'', r_path = ''/fluoride/unlike/{id}'', r_func = fUnlike_func s,
        r_at = CSRF, r_rt = JSON\<rparr>,
      \<lparr>r_method = ''POST'', r_path = ''/fluoride/retweet/{id}'', r_func = fRetweet_func s,
        r_at = CSRF, r_rt = JSON\<rparr>,
      \<lparr>r_method = ''POST'', r_path = ''/fluoride/unretweet/{id}'', r_func = fUnretweet_func s,
        r_at = CSRF, r_rt = JSON\<rparr>]"

subsection \<open>The authentication gate and the session manager, from the spec\<close>

text \<open>
  Modelled from the spec: the Session Manager's \<^verbatim>\<open>lookup\<close> and \<^verbatim>\<open>destroy\<close>, which
  are not in transport.go. \<open>lookup\<close> returns the session when it is present and
  unexpired, and does not tell a session that never existed from an expired one;
  \<open>destroy\<close> removes the session, and removing a session that is not there is not an
  error.
\<close>

definition lookup :: "string \<Rightarrow> backend \<Rightarrow> Session option" where
  "lookup sid b =
     (case find (\<lambda>x. ID x = sid) (store b) of
        None \<Rightarrow> None
      | Some x \<Rightarrow> if clock b < ExpiresAt x then Some x else None)"

definition destroy :: "string \<Rightarrow> backend \<Rightarrow> backend" where
  "destroy sid b = b\<lparr>store := filter (\<lambda>x. ID x \<noteq> sid) (store b)\<rparr>"

text \<open>
  Modelled from the spec: the CSRF Guard's \<^verbatim>\<open>validate\<close>, which is not in
  transport.go. The presented token is compared with the derived token of the session;
  an absent token (the empty string that \<^verbatim>\<open>FormValue\<close> returns for a missing field)
  is always invalid.
\<close>

definition validate :: "(Session \<Rightarrow> string) \<Rightarrow> Session \<Rightarrow> string \<Rightarrow> bool" where
  "validate derive sess presented \<longleftrightarrow> presented \<noteq> [] \<and> presented = derive sess"

text \<open>
  Modelled from the spec: the Authentication Gate \<^verbatim>\<open>s.authenticate\<close>, which is not in
  transport.go, as the table of the spec's section 4.3: NoAuth passes unconditionally;
  SessionRequired fails with InvalidSession when the lookup finds no session and
  otherwise passes with the resolved session attached; CsrfRequired does the same and
  fails with InvalidCsrf when the presented token does not validate.
\<close>

definition Gate ::
  "(Session \<Rightarrow> string) \<Rightarrow> client \<Rightarrow> string \<Rightarrow> string \<Rightarrow> string \<Rightarrow> auth_level \<Rightarrow> error option svc" where
  "Gate derive c sid csrf ref t b =
     (case t of
        NOAUTH \<Rightarrow> (None, c, b)
      | SESSION \<Rightarrow>
          (case lookup sid b of
             None \<Rightarrow> (Some InvalidSession, c, b)
           | Some x \<Rightarrow> (None, c\<lparr>c_s := x\<rparr>, b))
      | CSRF \<Rightarrow>
          (case lookup sid b of
             None \<Rightarrow> (Some InvalidSession, c, b)
           | Some x \<Rightarrow>
               if validate derive x csrf then (None, c\<lparr>c_s := x\<rparr>, b)
               else (Some InvalidCsrf, c, b)))"

text \<open>
  Modelled from the spec: \<^verbatim>\<open>s.Signout\<close>, which is not in transport.go, destroys the
  session of the client in the session store and reports no error.
\<close>

definition Signout_destroy :: "client \<Rightarrow> error option svc" where
  "Signout_destroy c b = (None, c, destroy (ID (c_s c)) b)"

subsection \<open>Reading a handled request\<close>

fun client_of :: "handled \<Rightarrow> client" where
  "client_of (Finished c st lg) = c"
| "client_of (Aborted c st lg) = c"

fun state_of :: "handled \<Rightarrow> state" where
  "state_of (Finished c st lg) = st"
| "state_of (Aborted c st lg) = st"

fun log_of :: "handled \<Rightarrow> log_record list" where
  "log_of (Finished c st lg) = lg"
| "log_of (Aborted c st lg) = lg"

fun result_state :: "result \<Rightarrow> state" where
  "result_state (Ret err c st) = st"
| "result_state (Panicked c st) = st"

text \<open>The session identifier that \<^verbatim>\<open>authenticate\<close> reads from the request.\<close>

definition presented_sid :: "Request \<Rightarrow> string" where
  "presented_sid req = (case Cookie_of req ''session_id'' of Some v \<Rightarrow> v | None \<Rightarrow> [])"

text \<open>
  The terminal error of a request, in the spec's words: the error of the gate when the
  gate fails, otherwise the error that the business logic returns, if any.
\<close>

definition terminal_error ::
  "service \<Rightarrow> (client \<Rightarrow> state \<Rightarrow> result) \<Rightarrow> auth_level \<Rightarrow> resp_type \<Rightarrow>
     ResponseWriter \<Rightarrow> Request \<Rightarrow> state \<Rightarrow> error option" where
  "terminal_error s f at rt rw req st =
     (case authenticate s (new_client rw req rt) at st of
        (Some err, c1, st1) \<Rightarrow> Some err
      | (None, c1, st1) \<Rightarrow>
          (case f c1 (st1\<lparr>calls := calls st1 @ [BusinessCall]\<rparr>) of
             Ret err c2 st2 \<Rightarrow> err
           | Panicked c2 st2 \<Rightarrow> None))"

text \<open>The number of gate invocations in a call record.\<close>

fun is_gate_call :: "call \<Rightarrow> bool" where
  "is_gate_call (GateCall t) = True"
| "is_gate_call BusinessCall = False"

definition gate_invocations :: "call list \<Rightarrow> nat" where
  "gate_invocations cs = length (filter is_gate_call cs)"

text \<open>A route function that never calls the closure \<^verbatim>\<open>authenticate\<close> itself.\<close>

definition makes_no_gate_call :: "(client \<Rightarrow> state \<Rightarrow> result) \<Rightarrow> bool" where
  "makes_no_gate_call f \<longleftrightarrow> (\<forall>c st. calls (result_state (f c st)) = calls st)"

subsection \<open>A concrete service and concrete requests\<close>

text \<open>
  A service whose gate and sign-out are the spec's, whose pages render a fixed body in
  five units of time, whose search rejects an empty query, whose \<open>Post\<close> rejects an
  empty status and whose \<open>Like\<close> rejects an empty status identifier.
\<close>

definition render :: "string \<Rightarrow> client \<Rightarrow> error option svc" where
  "render page c b = (None, c\<lparr>c_w := Write (Html page) (c_w c)\<rparr>, b\<lparr>clock := clock b + 5\<rparr>)"

definition example_service :: service where
  "example_service =
     \<lparr>svc_authenticate = Gate CsrfSecret,
      deriveToken = CsrfSecret,
      RootPage = render ''RootPage'',
      NavPage = render ''NavPage'',
      SingleInstance = ([], False),
      SigninPage = render ''SigninPage'',
      NewSession = (\<lambda>c instance b. ((''https://'' @ instance @ ''/oauth/authorize'', ''sid9'', None), c, b)),
      TimelinePage = (\<lambda>c a1 a2 a3 a4. render ''TimelinePage'' c),
      ThreadPage = (\<lambda>c a1 a2. render ''ThreadPage'' c),
      LikedByPage = (\<lambda>c a1. render ''LikedByPage'' c),
      RetweetedByPage = (\<lambda>c a1. render ''RetweetedByPage'' c),
      NotificationPage = (\<lambda>c a1 a2. render ''NotificationPage'' c),
      UserPage = (\<lambda>c a1 a2 a3 a4. render ''UserPage'' c),
      UserSearchPage = (\<lambda>c id' sq offset. render (''usersearch '' @ sq) c),
      AboutPage = render ''AboutPage'',
      EmojiPage = render ''EmojiPage'',
      SearchPage = (\<lambda>c sq qType offset b.
                if sq = [] then (Some (BusinessError ''empty query''), c, b)
                else render (''search '' @ sq) c b),
      SettingsPage = render ''SettingsPage'',
      FiltersPage = render ''FiltersPage'',
      Signin = (\<lambda>c a1 b. (None, c, b)),
      Post = (\<lambda>c content replyToID format visibility isNSFW files b.
                if content = [] then (([], Some (BusinessError ''empty status'')), c, b)
                else ((''101'', None), c, b)),
      Like = (\<lambda>c id' b.
                if id' = [] then ((0, Some (BusinessError ''no status'')), c, b)
                else ((1, None), c, b)),
      UnLike = (\<lambda>c a1 b. ((1, None), c, b)),
      Retweet = (\<lambda>c a1 b. ((1, None), c, b)),
      UnRetweet = (\<lambda>c a1 b. ((1, None), c, b)),
      Vote = (\<lambda>c a1 a2 b. (None, c, b)),
      Follow = (\<lambda>c a1 a2 b. (None, c, b)),
      UnFollow = (\<lambda>c a1 b. (None, c, b)),
      Accept = (\<lambda>c a1 b. (None, c, b)),
      Reject = (\<lambda>c a1 b. (None, c, b)),
      Mute = (\<lambda>c a1 b. (None, c, b)),
      UnMute = (\<lambda>c a1 b. (None, c, b)),
      Block = (\<lambda>c a1 b. (None, c, b)),
      UnBlock = (\<lambda>c a1 b. (None, c, b)),
      Subscribe = (\<lambda>c a1 b. (None, c, b)),
      UnSubscribe = (\<lambda>c a1 b. (None, c, b)),
      SaveSettings = (\<lambda>c a1 b. (None, c, b)),
      MuteConversation = (\<lambda>c a1 b. (None, c, b)),
      UnMuteConversation = (\<lambda>c a1 b. (None, c, b)),
      Delete = (\<lambda>c a1 b. (None, c, b)),
      ReadNotifications = (\<lambda>c a1 b. (None, c, b)),
      Bookmark = (\<lambda>c a1 b. (None, c, b)),
      UnBookmark = (\<lambda>c a1 b. (None, c, b)),
      Filter = (\<lambda>c a1 a2 b. (None, c, b)),
      UnFilter = (\<lambda>c a1 b. (None, c, b)),
      Signout = Signout_destroy\<rparr>"

text \<open>
  A service whose gate, above the level NOAUTH, cannot reach the session store, and a
  service whose sign-out fails.
\<close>

definition store_down :: error where
  "store_down = BackendUnavailable ''session store unreachable''"

definition unavailable_service :: service where
  "unavailable_service =
     example_service
       \<lparr>svc_authenticate :=
          (\<lambda>c sid csrf ref t b.
             case t of NOAUTH \<Rightarrow> (None, c, b) | _ \<Rightarrow> (Some store_down, c, b))\<rparr>"

definition failing_signout_service :: service where
  "failing_signout_service = example_service\<lparr>Signout := (\<lambda>c b. (Some store_down, c, b))\<rparr>"

definition expired_session :: Session where
  "expired_session =
     \<lparr>ID = ''sid0'', State = authenticated, Instance = ''example.social'',
      CsrfSecret = ''tok0'', ExpiresAt = 5\<rparr>"

definition alice :: Session where
  "alice =
     \<lparr>ID = ''sid1'', State = authenticated, Instance = ''example.social'',
      CsrfSecret = ''tok1'', ExpiresAt = 1000\<rparr>"

definition newcomer :: Session where
  "newcomer =
     \<lparr>ID = ''sid2'', State = anonymous, Instance = ''example.social'',
      CsrfSecret = ''tok2'', ExpiresAt = 1000\<rparr>"

definition state0 :: state where
  "state0 = \<lparr>be = \<lparr>store = [expired_session, alice, newcomer], clock = 10\<rparr>, calls = []\<rparr>"

definition fresh_writer :: ResponseWriter where
  "fresh_writer = \<lparr>header = [], status = None, cookies = [], body = []\<rparr>"

text \<open>A request without route variables and without a multipart body.\<close>

definition request ::
  "string \<Rightarrow> string \<Rightarrow> (string \<times> string) list \<Rightarrow> Values \<Rightarrow> Values \<Rightarrow> Request" where
  "request m p cs form q =
     \<lparr>Method = m, URL_Path = p, URL_RequestURI = p, Cookies = cs, Form = form,
      PostForm = form, Query = q, Vars = [], MultipartForm = None\<rparr>"


definition root_request :: "string \<Rightarrow> Request" where
  "root_request sid = request ''GET'' ''/'' [(''session_id'', sid)] [] []"

text \<open>A form post with a body that is not multipart/form-data.\<close>

definition post_request :: "string \<Rightarrow> Request" where
  "post_request token =
     request ''POST'' ''/post'' [(''session_id'', ''sid1'')]
       [(''csrf_token'', [token]), (''content'', [''hello''])] []"


definition signout_request :: Request where
  "signout_request =
     request ''POST'' ''/signout'' [(''session_id'', ''sid1'')] [(''csrf_token'', [''tok1''])] []"

text \<open>Signing out, and signing out again with the same request.\<close>

definition first_signout :: handled where
  "first_signout = signout example_service fresh_writer signout_request state0 []"

definition second_signout :: handled where
  "second_signout =
     signout example_service fresh_writer signout_request (state_of first_signout)
       (log_of first_signout)"

text \<open>Signing out again after the browser has dropped the cleared cookie.\<close>

definition cookieless_signout :: handled where
  "cookieless_signout =
     signout example_service fresh_writer
       (request ''POST'' ''/signout'' [] [(''csrf_token'', [''tok1''])] [])
       (state_of first_signout) (log_of first_signout)"

section \<open>Properties\<close>

subsection \<open>Basic facts\<close>

text \<open>The definitions that evaluate the concrete requests.\<close>

lemmas example_defs =
  example_service_def render_def expired_session_def alice_def newcomer_def state0_def
  fresh_writer_def request_def

lemmas reading_defs =
  presented_sid_def Cookie_of_def FormValue_def Get_def Var_def lookup_def validate_def
  IsLoggedIn_def zero_Session_def MethodGet_def errInvalidSession_def

lemmas writer_defs =
  new_client_def Header_Add_def WriteHeader_def Write_def SetCookie_def setSessionCookie_def
  redirect_def writeError_def ErrorPage_def writeJson_def StatusFound_def
  StatusInternalServerError_def

lemmas dispatch_defs =
  handle_def authenticate_def Gate_def logger_Printf_def Signout_destroy_def destroy_def

lemma handle_gate_fails:
  "authenticate s (new_client rw req rt) at st = (Some e, c1, st1) \<Longrightarrow>
   handle s f at rt rw req st lg =
     Finished (writeError c1 e rt (Method req = MethodGet)) st1
       (logger_Printf req (Some e) (clock (be st)) st1 lg)"
  by (simp add: handle_def Let_def)

lemma handle_gate_passes:
  "authenticate s (new_client rw req rt) at st = (None, c1, st1) \<Longrightarrow>
   handle s f at rt rw req st lg =
     (case f c1 (st1\<lparr>calls := calls st1 @ [BusinessCall]\<rparr>) of
        Panicked c2 st2 \<Rightarrow> Aborted c2 st2 (logger_Printf req None (clock (be st)) st2 lg)
      | Ret (Some err) c2 st2 \<Rightarrow>
          Finished (writeError c2 err rt (Method req = MethodGet)) st2
            (logger_Printf req (Some err) (clock (be st)) st2 lg)
      | Ret None c2 st2 \<Rightarrow> Finished c2 st2 (logger_Printf req None (clock (be st)) st2 lg))"
  by (simp add: handle_def Let_def)

lemma authenticate_Gate:
  "svc_authenticate s = Gate d \<Longrightarrow>
   authenticate s c t st =
     (case Gate d c (presented_sid (c_r c)) (FormValue (c_r c) ''csrf_token'')
             (URL_RequestURI (c_r c)) t (be st) of
        (err, c', be') \<Rightarrow> (err, c', st\<lparr>be := be', calls := calls st @ [GateCall t]\<rparr>))"
  by (simp add: authenticate_def presented_sid_def Let_def)

lemma c_r_new_client [simp]: "c_r (new_client rw req rt) = req"
  by (simp add: new_client_def Let_def)

subsection \<open>The gate stops the dispatcher\<close>





subsection \<open>The log record and the error response\<close>

text \<open>
  C6. Every run of \<^verbatim>\<open>handle\<close>, whether the gate fails, the route's function fails,
  succeeds or panics, appends exactly one record to the log: the path of the request,
  the terminal error (or none), and the time on the clock when the handler is left minus
  the time when it was entered.
\<close>

theorem handle_logs_exactly_once:
  "log_of (handle s f at rt rw req st lg) =
     lg @ [\<lparr>lr_path = URL_Path req,
            lr_err = terminal_error s f at rt rw req st,
            lr_took = clock (be (state_of (handle s f at rt rw req st lg))) - clock (be st)\<rparr>]"
  by (simp add: handle_def terminal_error_def logger_Printf_def Let_def
      split: prod.split option.split result.split)



subsection \<open>Sign-out\<close>

lemma lookup_ID: "lookup sid b = Some sess \<Longrightarrow> ID sess = sid"
  by (auto simp: lookup_def find_Some_iff split: option.splits if_splits)

lemma find_filter_other: "find (\<lambda>x. ID x = sid) (filter (\<lambda>x. ID x \<noteq> sid) xs) = None"
  by (induction xs) auto

lemma lookup_destroy: "lookup sid (destroy sid b) = None"
  by (simp add: lookup_def destroy_def find_filter_other)

lemma destroy_idem: "destroy sid (destroy sid b) = destroy sid b"
  by (simp add: destroy_def)

lemma clock_destroy [simp]: "clock (destroy sid b) = clock b"
  by (simp add: destroy_def)

text \<open>
  C3, as amended. With the gate and the sign-out of the spec, a POST /signout that
  presents a valid session and its token answers without error with the redirect to
  \<open>/\<close> and a \<open>session_id\<close> cookie of empty value whose \<open>Expires\<close> is the time of
  the call, and destroys the session; destroying it again changes nothing. The same
  request sent again is stopped by the gate: the answer is the error response for
  InvalidSession and sets no cookie. The function of the route itself, whenever it runs,
  returns no error and sets that cookie.
\<close>

theorem signout_then_gate_rejects:
  assumes "svc_authenticate s = Gate (deriveToken s)"
    and "Signout s = Signout_destroy"
    and "lookup (presented_sid req) (be st) = Some sess"
    and "validate (deriveToken s) sess (FormValue req ''csrf_token'')"
  shows "signout s rw req st lg =
           Finished
             (redirect
                ((new_client rw req HTML)
                   \<lparr>c_s := sess,
                    c_w := setSessionCookie (c_w (new_client rw req HTML)) [] 0 (clock (be st))\<rparr>)
                ''/'')
             \<lparr>be = destroy (presented_sid req) (be st),
              calls = calls st @ [GateCall CSRF, BusinessCall]\<rparr>
             (lg @ [\<lparr>lr_path = URL_Path req, lr_err = None, lr_took = 0\<rparr>])
         \<and> cookies (c_w (client_of (signout s rw req st lg))) =
             cookies rw @ [\<lparr>Name = ''session_id'', Value = [], Expires = clock (be st)\<rparr>]
         \<and> signout s rw' req (state_of (signout s rw req st lg)) lg' =
             Finished (writeError (new_client rw' req HTML) InvalidSession HTML (Method req = MethodGet))
               \<lparr>be = destroy (presented_sid req) (be st),
                calls = calls st @ [GateCall CSRF, BusinessCall, GateCall CSRF]\<rparr>
               (lg' @ [\<lparr>lr_path = URL_Path req, lr_err = Some InvalidSession, lr_took = 0\<rparr>])
         \<and> cookies (c_w (client_of (signout s rw' req (state_of (signout s rw req st lg)) lg'))) =
             cookies rw'
         \<and> destroy (presented_sid req) (destroy (presented_sid req) (be st)) =
             destroy (presented_sid req) (be st)
         \<and> signout_func s c0 st0 =
             Ret None
               (redirect (c0\<lparr>c_w := setSessionCookie (c_w c0) [] 0 (clock (be st0))\<rparr>) ''/'')
               (st0\<lparr>be := destroy (ID (c_s c0)) (be st0)\<rparr>)"
proof -
  let ?c = "new_client rw req HTML"
  have gate: "authenticate s ?c CSRF st = (None, ?c\<lparr>c_s := sess\<rparr>, st\<lparr>calls := calls st @ [GateCall CSRF]\<rparr>)"
    using assms by (simp add: authenticate_Gate Gate_def)
  have first: "signout s rw req st lg =
      Finished
        (redirect (?c\<lparr>c_s := sess, c_w := setSessionCookie (c_w ?c) [] 0 (clock (be st))\<rparr>) ''/'')
        \<lparr>be = destroy (presented_sid req) (be st), calls = calls st @ [GateCall CSRF, BusinessCall]\<rparr>
        (lg @ [\<lparr>lr_path = URL_Path req, lr_err = None, lr_took = 0\<rparr>])"
    using assms(2) lookup_ID [OF assms(3)]
    by (simp add: signout_def handle_gate_passes [OF gate] signout_func_def Signout_destroy_def
        logger_Printf_def)
  have second: "signout s rw' req \<lparr>be = destroy (presented_sid req) (be st), calls = cs\<rparr> lg' =
      Finished (writeError (new_client rw' req HTML) InvalidSession HTML (Method req = MethodGet))
        \<lparr>be = destroy (presented_sid req) (be st), calls = cs @ [GateCall CSRF]\<rparr>
        (lg' @ [\<lparr>lr_path = URL_Path req, lr_err = Some InvalidSession, lr_took = 0\<rparr>])" for cs
  proof -
    have "authenticate s (new_client rw' req HTML) CSRF \<lparr>be = destroy (presented_sid req) (be st), calls = cs\<rparr>
        = (Some InvalidSession, new_client rw' req HTML,
           \<lparr>be = destroy (presented_sid req) (be st), calls = cs @ [GateCall CSRF]\<rparr>)"
      using assms(1) by (simp add: authenticate_Gate Gate_def lookup_destroy)
    then show ?thesis
      by (simp add: signout_def handle_gate_fails logger_Printf_def)
  qed
  have func: "signout_func s c0 st0 =
      Ret None
        (redirect (c0\<lparr>c_w := setSessionCookie (c_w c0) [] 0 (clock (be st0))\<rparr>) ''/'')
        (st0\<lparr>be := destroy (ID (c_s c0)) (be st0)\<rparr>)"
    using assms(2) by (simp add: signout_func_def Signout_destroy_def)
  show ?thesis
    by (simp add: first second destroy_idem func)
       (simp add: redirect_def setSessionCookie_def SetCookie_def WriteHeader_def Header_Add_def
          new_client_def writeError_def ErrorPage_def Write_def Let_def)
qed

theorem signout_then_gate_rejects_witness:
  "lookup (presented_sid signout_request) (be state0) = Some alice
   \<and> validate (deriveToken example_service) alice (FormValue signout_request ''csrf_token'')
   \<and> cookies (c_w (client_of first_signout)) =
       [\<lparr>Name = ''session_id'', Value = [], Expires = 10\<rparr>]
   \<and> lr_err (last (log_of first_signout)) = None
   \<and> store (be (state_of first_signout)) = [expired_session, newcomer]
   \<and> second_signout =
       Finished
         (writeError (new_client fresh_writer signout_request HTML) InvalidSession HTML False)
         \<lparr>be = \<lparr>store = [expired_session, newcomer], clock = 10\<rparr>,
          calls = [GateCall CSRF, BusinessCall, GateCall CSRF]\<rparr>
         [\<lparr>lr_path = ''/signout'', lr_err = None, lr_took = 0\<rparr>,
          \<lparr>lr_path = ''/signout'', lr_err = Some InvalidSession, lr_took = 0\<rparr>]"
proof -
  have gate: "svc_authenticate example_service = Gate (deriveToken example_service)"
    and out: "Signout example_service = Signout_destroy"
    by (simp_all add: example_service_def)
  have valid: "lookup (presented_sid signout_request) (be state0) = Some alice"
    by (simp add: example_defs signout_request_def reading_defs)
  have token: "validate (deriveToken example_service) alice (FormValue signout_request ''csrf_token'')"
    by (simp add: example_defs signout_request_def reading_defs)
  have facts: "(Method signout_request = MethodGet) = False" "URL_Path signout_request = ''/signout''"
    "calls state0 = []" "clock (be state0) = 10" "cookies fresh_writer = []"
    "destroy (presented_sid signout_request) (be state0) =
       \<lparr>store = [expired_session, newcomer], clock = 10\<rparr>"
    by (simp_all add: example_defs signout_request_def reading_defs destroy_def)
  note run =
    signout_then_gate_rejects
      [where s = example_service and rw = fresh_writer and rw' = fresh_writer and lg = "[]"
         and lg' = "[\<lparr>lr_path = ''/signout'', lr_err = None, lr_took = 0\<rparr>]",
       OF gate out valid token, unfolded facts]
  have first: "first_signout =
      Finished
        (redirect
           ((new_client fresh_writer signout_request HTML)
              \<lparr>c_s := alice,
               c_w := setSessionCookie (c_w (new_client fresh_writer signout_request HTML)) [] 0 10\<rparr>)
           ''/'')
        \<lparr>be = \<lparr>store = [expired_session, newcomer], clock = 10\<rparr>,
         calls = [GateCall CSRF, BusinessCall]\<rparr>
        [\<lparr>lr_path = ''/signout'', lr_err = None, lr_took = 0\<rparr>]"
    using run [THEN conjunct1] by (simp add: first_signout_def)
  have "cookies (c_w (client_of first_signout)) =
      [\<lparr>Name = ''session_id'', Value = [], Expires = 10\<rparr>]"
    using run [THEN conjunct2, THEN conjunct1] by (simp add: first_signout_def)
  moreover have "second_signout =
       Finished
         (writeError (new_client fresh_writer signout_request HTML) InvalidSession HTML False)
         \<lparr>be = \<lparr>store = [expired_session, newcomer], clock = 10\<rparr>,
          calls = [GateCall CSRF, BusinessCall, GateCall CSRF]\<rparr>
         [\<lparr>lr_path = ''/signout'', lr_err = None, lr_took = 0\<rparr>,
          \<lparr>lr_path = ''/signout'', lr_err = Some InvalidSession, lr_took = 0\<rparr>]"
    using run [THEN conjunct2, THEN conjunct2, THEN conjunct1]
    by (simp add: second_signout_def first first_signout_def [symmetric])
  ultimately show ?thesis
    using valid token by (simp add: first)
qed

text \<open>
  Signing out twice with the same request: the first answer carries no error, the second
  is the error response for InvalidSession and carries no cookie.
\<close>

theorem second_signout_is_rejected:
  "lr_err (last (log_of first_signout)) = None
   \<and> lr_err (last (log_of second_signout)) = Some InvalidSession
   \<and> status (c_w (client_of second_signout)) = Some 500
   \<and> body (c_w (client_of second_signout)) = [ErrorPageHtml ''InvalidSession'' False]
   \<and> cookies (c_w (client_of second_signout)) = []
   \<and> lr_err (last (log_of cookieless_signout)) = Some InvalidSession
   \<and> status (c_w (client_of cookieless_signout)) = Some 500
   \<and> cookies (c_w (client_of cookieless_signout)) = []"
proof -
  have first: "first_signout =
      Finished
        \<lparr>c_w = \<lparr>header = [(''Content-Type'', ''text/html; charset=utf-8''), (''Location'', ''/'')],
                status = Some 302,
                cookies = [\<lparr>Name = ''session_id'', Value = [], Expires = 10\<rparr>],
                body = []\<rparr>,
         c_r = signout_request, c_s = alice, c_csrf = []\<rparr>
        \<lparr>be = \<lparr>store = [expired_session, newcomer], clock = 10\<rparr>,
         calls = [GateCall CSRF, BusinessCall]\<rparr>
        [\<lparr>lr_path = ''/signout'', lr_err = None, lr_took = 0\<rparr>]"
    by (simp add: first_signout_def signout_def signout_func_def dispatch_defs example_defs signout_request_def
        reading_defs writer_defs Let_def)
  have second: "second_signout =
      Finished
        \<lparr>c_w = \<lparr>header = [(''Content-Type'', ''text/html; charset=utf-8'')],
                status = Some 500, cookies = [],
                body = [ErrorPageHtml ''InvalidSession'' False]\<rparr>,
         c_r = signout_request, c_s = zero_Session, c_csrf = []\<rparr>
        \<lparr>be = \<lparr>store = [expired_session, newcomer], clock = 10\<rparr>,
         calls = [GateCall CSRF, BusinessCall, GateCall CSRF]\<rparr>
        [\<lparr>lr_path = ''/signout'', lr_err = None, lr_took = 0\<rparr>,
         \<lparr>lr_path = ''/signout'', lr_err = Some InvalidSession, lr_took = 0\<rparr>]"
    unfolding second_signout_def first
    by (simp add: signout_def signout_func_def dispatch_defs example_defs signout_request_def
        reading_defs writer_defs Let_def)
  have third: "cookieless_signout =
      Finished
        \<lparr>c_w = \<lparr>header = [(''Content-Type'', ''text/html; charset=utf-8'')],
                status = Some 500, cookies = [],
                body = [ErrorPageHtml ''InvalidSession'' False]\<rparr>,
         c_r = request ''POST'' ''/signout'' [] [(''csrf_token'', [''tok1''])] [],
         c_s = zero_Session, c_csrf = []\<rparr>
        \<lparr>be = \<lparr>store = [expired_session, newcomer], clock = 10\<rparr>,
         calls = [GateCall CSRF, BusinessCall, GateCall CSRF]\<rparr>
        [\<lparr>lr_path = ''/signout'', lr_err = None, lr_took = 0\<rparr>,
         \<lparr>lr_path = ''/signout'', lr_err = Some InvalidSession, lr_took = 0\<rparr>]"
    unfolding cookieless_signout_def first
    by (simp add: signout_def signout_func_def dispatch_defs example_defs signout_request_def
        reading_defs writer_defs Let_def)
  show ?thesis
    by (simp add: first second third)
qed

text \<open>
  C9. Once the gate has passed a POST /signout, the answer is the \<open>session_id\<close>
  cookie of empty value with \<open>Expires\<close> at the time of the call and the redirect to
  \<open>/\<close> (status 302 when no status was written before), whatever \<^verbatim>\<open>s.Signout\<close>
  returns as its error: \<open>err\<close> is arbitrary, the logged error is none, and the body
  is left as it was, so no error response is written.
\<close>

theorem signout_discards_error:
  assumes "authenticate s (new_client rw req HTML) CSRF st = (None, c1, st1)"
    and "Signout s c1 (be st1) = (err, c2, be2)"
  shows "signout s rw req st lg =
           Finished (redirect (c2\<lparr>c_w := setSessionCookie (c_w c2) [] 0 (clock be2)\<rparr>) ''/'')
             (st1\<lparr>be := be2, calls := calls st1 @ [BusinessCall]\<rparr>)
             (lg @ [\<lparr>lr_path = URL_Path req, lr_err = None, lr_took = clock be2 - clock (be st)\<rparr>])
         \<and> cookies (c_w (client_of (signout s rw req st lg))) =
             cookies (c_w c2) @ [\<lparr>Name = ''session_id'', Value = [], Expires = clock be2\<rparr>]
         \<and> header (c_w (client_of (signout s rw req st lg))) =
             header (c_w c2) @ [(''Location'', ''/'')]
         \<and> body (c_w (client_of (signout s rw req st lg))) = body (c_w c2)
         \<and> (status (c_w c2) = None \<longrightarrow>
              status (c_w (client_of (signout s rw req st lg))) = Some 302)"
  using assms
  by (simp add: signout_def handle_gate_passes [OF assms(1)] signout_func_def
      logger_Printf_def redirect_def WriteHeader_def Header_Add_def StatusFound_def
      setSessionCookie_def SetCookie_def)

theorem signout_discards_error_witness:
  "authenticate failing_signout_service (new_client fresh_writer signout_request HTML) CSRF state0 =
     (None, (new_client fresh_writer signout_request HTML)\<lparr>c_s := alice\<rparr>,
      state0\<lparr>calls := [GateCall CSRF]\<rparr>)
   \<and> fst (Signout failing_signout_service
            ((new_client fresh_writer signout_request HTML)\<lparr>c_s := alice\<rparr>) (be state0)) =
       Some store_down
   \<and> log_of (signout failing_signout_service fresh_writer signout_request state0 []) =
       [\<lparr>lr_path = ''/signout'', lr_err = None, lr_took = 0\<rparr>]
   \<and> c_w (client_of (signout failing_signout_service fresh_writer signout_request state0 [])) =
       \<lparr>header = [(''Content-Type'', ''text/html; charset=utf-8''), (''Location'', ''/'')],
        status = Some 302,
        cookies = [\<lparr>Name = ''session_id'', Value = [], Expires = 10\<rparr>],
        body = []\<rparr>"
proof -
  let ?c = "new_client fresh_writer signout_request HTML"
  have pass: "authenticate failing_signout_service ?c CSRF state0 =
      (None, ?c\<lparr>c_s := alice\<rparr>, state0\<lparr>calls := [GateCall CSRF]\<rparr>)"
    by (simp add: dispatch_defs example_defs signout_request_def failing_signout_service_def store_down_def reading_defs Let_def)
  have out: "Signout failing_signout_service (?c\<lparr>c_s := alice\<rparr>) (be (state0\<lparr>calls := [GateCall CSRF]\<rparr>)) =
      (Some store_down, ?c\<lparr>c_s := alice\<rparr>, be state0)"
    by (simp add: failing_signout_service_def)
  from signout_discards_error [OF pass out, of "[]"] pass out
  show ?thesis
    by (simp add: writer_defs example_defs signout_request_def failing_signout_service_def store_down_def Let_def)
qed

subsection \<open>The gate is called by the dispatcher, and again by the root page\<close>

lemma calls_authenticate:
  "calls (snd (snd (authenticate s c t st))) = calls st @ [GateCall t]"
  by (simp add: authenticate_def Let_def split: prod.split)

lemma authenticate_calls:
  "authenticate s c t st = (r, c1, st1) \<Longrightarrow> calls st1 = calls st @ [GateCall t]"
  using calls_authenticate [of s c t st] by simp

lemma no_gate_call_navPage: "makes_no_gate_call (navPage_func s)"
  by (simp add: makes_no_gate_call_def navPage_func_def writeJson_def Let_def
      split: prod.split option.split bool.split)

lemma no_gate_call_signinPage: "makes_no_gate_call (signinPage_func s)"
  by (simp add: makes_no_gate_call_def signinPage_func_def writeJson_def Let_def
      split: prod.split option.split bool.split)

lemma no_gate_call_timelinePage: "makes_no_gate_call (timelinePage_func s)"
  by (simp add: makes_no_gate_call_def timelinePage_func_def writeJson_def Let_def
      split: prod.split option.split bool.split)

lemma no_gate_call_defaultTimelinePage: "makes_no_gate_call (defaultTimelinePage_func s)"
  by (simp add: makes_no_gate_call_def defaultTimelinePage_func_def writeJson_def Let_def
      split: prod.split option.split bool.split)

lemma no_gate_call_threadPage: "makes_no_gate_call (threadPage_func s)"
  by (simp add: makes_no_gate_call_def threadPage_func_def writeJson_def Let_def
      split: prod.split option.split bool.split)

lemma no_gate_call_likedByPage: "makes_no_gate_call (likedByPage_func s)"
  by (simp add: makes_no_gate_call_def likedByPage_func_def writeJson_def Let_def
      split: prod.split option.split bool.split)

lemma no_gate_call_retweetedByPage: "makes_no_gate_call (retweetedByPage_func s)"
  by (simp add: makes_no_gate_call_def retweetedByPage_func_def writeJson_def Let_def
      split: prod.split option.split bool.split)

lemma no_gate_call_notificationsPage: "makes_no_gate_call (notificationsPage_func s)"
  by (simp add: makes_no_gate_call_def notificationsPage_func_def writeJson_def Let_def
      split: prod.split option.split bool.split)

lemma no_gate_call_userPage: "makes_no_gate_call (userPage_func s)"
  by (simp add: makes_no_gate_call_def userPage_func_def writeJson_def Let_def
      split: prod.split option.split bool.split)

lemma no_gate_call_userSearchPage: "makes_no_gate_call (userSearchPage_func s)"
  by (simp add: makes_no_gate_call_def userSearchPage_func_def writeJson_def Let_def
      split: prod.split option.split bool.split)

lemma no_gate_call_aboutPage: "makes_no_gate_call (aboutPage_func s)"
  by (simp add: makes_no_gate_call_def aboutPage_func_def writeJson_def Let_def
      split: prod.split option.split bool.split)

lemma no_gate_call_emojisPage: "makes_no_gate_call (emojisPage_func s)"
  by (simp add: makes_no_gate_call_def emojisPage_func_def writeJson_def Let_def
      split: prod.split option.split bool.split)

lemma no_gate_call_searchPage: "makes_no_gate_call (searchPage_func s)"
  by (simp add: makes_no_gate_call_def searchPage_func_def writeJson_def Let_def
      split: prod.split option.split bool.split)

lemma no_gate_call_settingsPage: "makes_no_gate_call (settingsPage_func s)"
  by (simp add: makes_no_gate_call_def settingsPage_func_def writeJson_def Let_def
      split: prod.split option.split bool.split)

lemma no_gate_call_filtersPage: "makes_no_gate_call (filtersPage_func s)"
  by (simp add: makes_no_gate_call_def filtersPage_func_def writeJson_def Let_def
      split: prod.split option.split bool.split)

lemma no_gate_call_signin: "makes_no_gate_call (signin_func s)"
  by (simp add: makes_no_gate_call_def signin_func_def writeJson_def Let_def
      split: prod.split option.split bool.split)

lemma no_gate_call_oauthCallback: "makes_no_gate_call (oauthCallback_func s)"
  by (simp add: makes_no_gate_call_def oauthCallback_func_def writeJson_def Let_def
      split: prod.split option.split bool.split)

lemma no_gate_call_post: "makes_no_gate_call (post_func s)"
  by (simp add: makes_no_gate_call_def post_func_def writeJson_def Let_def
      split: prod.split option.split bool.split)

lemma no_gate_call_like: "makes_no_gate_call (like_func s)"
  by (simp add: makes_no_gate_call_def like_func_def writeJson_def Let_def
      split: prod.split option.split bool.split)

lemma no_gate_call_unlike: "makes_no_gate_call (unlike_func s)"
  by (simp add: makes_no_gate_call_def unlike_func_def writeJson_def Let_def
      split: prod.split option.split bool.split)

lemma no_gate_call_retweet: "makes_no_gate_call (retweet_func s)"
  by (simp add: makes_no_gate_call_def retweet_func_def writeJson_def Let_def
      split: prod.split option.split bool.split)

lemma no_gate_call_unretweet: "makes_no_gate_call (unretweet_func s)"
  by (simp add: makes_no_gate_call_def unretweet_func_def writeJson_def Let_def
      split: prod.split option.split bool.split)

lemma no_gate_call_vote: "makes_no_gate_call (vote_func s)"
  by (simp add: makes_no_gate_call_def vote_func_def writeJson_def Let_def
      split: prod.split option.split bool.split)

lemma no_gate_call_follow: "makes_no_gate_call (follow_func s)"
  by (simp add: makes_no_gate_call_def follow_func_def writeJson_def Let_def
      split: prod.split option.split bool.split)

lemma no_gate_call_unfollow: "makes_no_gate_call (unfollow_func s)"
  by (simp add: makes_no_gate_call_def unfollow_func_def writeJson_def Let_def
      split: prod.split option.split bool.split)

lemma no_gate_call_accept: "makes_no_gate_call (accept_func s)"
  by (simp add: makes_no_gate_call_def accept_func_def writeJson_def Let_def
      split: prod.split option.split bool.split)

lemma no_gate_call_reject: "makes_no_gate_call (reject_func s)"
  by (simp add: makes_no_gate_call_def reject_func_def writeJson_def Let_def
      split: prod.split option.split bool.split)

lemma no_gate_call_mute: "makes_no_gate_call (mute_func s)"
  by (simp add: makes_no_gate_call_def mute_func_def writeJson_def Let_def
      split: prod.split option.split bool.split)

lemma no_gate_call_unMute: "makes_no_gate_call (unMute_func s)"
  by (simp add: makes_no_gate_call_def unMute_func_def writeJson_def Let_def
      split: prod.split option.split bool.split)

lemma no_gate_call_block: "makes_no_gate_call (block_func s)"
  by (simp add: makes_no_gate_call_def block_func_def writeJson_def Let_def
      split: prod.split option.split bool.split)

lemma no_gate_call_unBlock: "makes_no_gate_call (unBlock_func s)"
  by (simp add: makes_no_gate_call_def unBlock_func_def writeJson_def Let_def
      split: prod.split option.split bool.split)

lemma no_gate_call_subscribe: "makes_no_gate_call (subscribe_func s)"
  by (simp add: makes_no_gate_call_def subscribe_func_def writeJson_def Let_def
      split: prod.split option.split bool.split)

lemma no_gate_call_unSubscribe: "makes_no_gate_call (unSubscribe_func s)"
  by (simp add: makes_no_gate_call_def unSubscribe_func_def writeJson_def Let_def
      split: prod.split option.split bool.split)

lemma no_gate_call_settings: "makes_no_gate_call (settings_func s)"
  by (simp add: makes_no_gate_call_def settings_func_def writeJson_def Let_def
      split: prod.split option.split bool.split)

lemma no_gate_call_muteConversation: "makes_no_gate_call (muteConversation_func s)"
  by (simp add: makes_no_gate_call_def muteConversation_func_def writeJson_def Let_def
      split: prod.split option.split bool.split)

lemma no_gate_call_unMuteConversation: "makes_no_gate_call (unMuteConversation_func s)"
  by (simp add: makes_no_gate_call_def unMuteConversation_func_def writeJson_def Let_def
      split: prod.split option.split bool.split)

lemma no_gate_call_delete: "makes_no_gate_call (delete_func s)"
  by (simp add: makes_no_gate_call_def delete_func_def writeJson_def Let_def
      split: prod.split option.split bool.split)

lemma no_gate_call_readNotifications: "makes_no_gate_call (readNotifications_func s)"
  by (simp add: makes_no_gate_call_def readNotifications_func_def writeJson_def Let_def
      split: prod.split option.split bool.split)

lemma no_gate_call_bookmark: "makes_no_gate_call (bookmark_func s)"
  by (simp add: makes_no_gate_call_def bookmark_func_def writeJson_def Let_def
      split: prod.split option.split bool.split)

lemma no_gate_call_unBookmark: "makes_no_gate_call (unBookmark_func s)"
  by (simp add: makes_no_gate_call_def unBookmark_func_def writeJson_def Let_def
      split: prod.split option.split bool.split)

lemma no_gate_call_filter_route: "makes_no_gate_call (filter_route_func s)"
  by (simp add: makes_no_gate_call_def filter_route_func_def writeJson_def Let_def
      split: prod.split option.split bool.split)

lemma no_gate_call_unFilter: "makes_no_gate_call (unFilter_func s)"
  by (simp add: makes_no_gate_call_def unFilter_func_def writeJson_def Let_def
      split: prod.split option.split bool.split)

lemma no_gate_call_signout: "makes_no_gate_call (signout_func s)"
  by (simp add: makes_no_gate_call_def signout_func_def writeJson_def Let_def
      split: prod.split option.split bool.split)

lemma no_gate_call_fLike: "makes_no_gate_call (fLike_func s)"
  by (simp add: makes_no_gate_call_def fLike_func_def writeJson_def Let_def
      split: prod.split option.split bool.split)

lemma no_gate_call_fUnlike: "makes_no_gate_call (fUnlike_func s)"
  by (simp add: makes_no_gate_call_def fUnlike_func_def writeJson_def Let_def
      split: prod.split option.split bool.split)

lemma no_gate_call_fRetweet: "makes_no_gate_call (fRetweet_func s)"
  by (simp add: makes_no_gate_call_def fRetweet_func_def writeJson_def Let_def
      split: prod.split option.split bool.split)

lemma no_gate_call_fUnretweet: "makes_no_gate_call (fUnretweet_func s)"
  by (simp add: makes_no_gate_call_def fUnretweet_func_def writeJson_def Let_def
      split: prod.split option.split bool.split)

lemma calls_handle:
  assumes "makes_no_gate_call f"
  shows "calls (state_of (handle s f at rt rw req st lg)) =
           calls st @ GateCall at #
             (case fst (authenticate s (new_client rw req rt) at st) of
                None \<Rightarrow> [BusinessCall] | Some e \<Rightarrow> [])"
proof (cases "authenticate s (new_client rw req rt) at st")
  case (fields r c1 st1)
  note cs = authenticate_calls [OF fields]
  show ?thesis
  proof (cases r)
    case None
    with fields have pass: "authenticate s (new_client rw req rt) at st = (None, c1, st1)"
      by simp
    have "calls (result_state (f c1 (st1\<lparr>calls := calls st1 @ [BusinessCall]\<rparr>))) =
        calls st1 @ [BusinessCall]"
      using assms by (simp add: makes_no_gate_call_def)
    then show ?thesis
      using cs
      by (cases "f c1 (st1\<lparr>calls := calls st1 @ [BusinessCall]\<rparr>)")
         (simp_all add: handle_gate_passes [OF pass] pass split: option.split)
  next
    case (Some e)
    with fields have fail: "authenticate s (new_client rw req rt) at st = (Some e, c1, st1)"
      by simp
    show ?thesis
      using cs by (simp add: handle_gate_fails [OF fail] fail)
  qed
qed

lemma calls_rootPage_func:
  "calls (result_state (rootPage_func s c st)) = calls st @ [GateCall SESSION]"
proof (cases "authenticate s c SESSION st")
  case (fields r c1 st1)
  note cs = authenticate_calls [OF fields]
  show ?thesis
    using cs by (simp add: rootPage_func_def fields split: option.split prod.split)
qed

lemma calls_rootPage:
  "calls (state_of (rootPage s rw req st lg)) =
     calls st @ GateCall NOAUTH #
       (case fst (authenticate s (new_client rw req HTML) NOAUTH st) of
          None \<Rightarrow> [BusinessCall, GateCall SESSION] | Some e \<Rightarrow> [])"
proof (cases "authenticate s (new_client rw req HTML) NOAUTH st")
  case (fields r c1 st1)
  note cs = authenticate_calls [OF fields]
  show ?thesis
  proof (cases r)
    case None
    with fields have pass: "authenticate s (new_client rw req HTML) NOAUTH st = (None, c1, st1)"
      by simp
    have "calls (result_state (rootPage_func s c1 (st1\<lparr>calls := calls st1 @ [BusinessCall]\<rparr>))) =
        calls st1 @ [BusinessCall, GateCall SESSION]"
      by (simp add: calls_rootPage_func)
    then show ?thesis
      using cs
      by (cases "rootPage_func s c1 (st1\<lparr>calls := calls st1 @ [BusinessCall]\<rparr>)")
         (simp_all add: rootPage_def handle_gate_passes [OF pass] pass split: option.split)
  next
    case (Some e)
    with fields have fail: "authenticate s (new_client rw req HTML) NOAUTH st = (Some e, c1, st1)"
      by simp
    show ?thesis
      using cs by (simp add: rootPage_def handle_gate_fails [OF fail] fail)
  qed
qed

lemmas no_gate_call_routes =
  no_gate_call_navPage no_gate_call_signinPage no_gate_call_timelinePage
  no_gate_call_defaultTimelinePage no_gate_call_threadPage no_gate_call_likedByPage
  no_gate_call_retweetedByPage no_gate_call_notificationsPage no_gate_call_userPage
  no_gate_call_userSearchPage no_gate_call_aboutPage no_gate_call_emojisPage
  no_gate_call_searchPage no_gate_call_settingsPage no_gate_call_filtersPage
  no_gate_call_signin no_gate_call_oauthCallback no_gate_call_post
  no_gate_call_like no_gate_call_unlike no_gate_call_retweet
  no_gate_call_unretweet no_gate_call_vote no_gate_call_follow
  no_gate_call_unfollow no_gate_call_accept no_gate_call_reject
  no_gate_call_mute no_gate_call_unMute no_gate_call_block
  no_gate_call_unBlock no_gate_call_subscribe no_gate_call_unSubscribe
  no_gate_call_settings no_gate_call_muteConversation no_gate_call_unMuteConversation
  no_gate_call_delete no_gate_call_readNotifications no_gate_call_bookmark
  no_gate_call_unBookmark no_gate_call_filter_route no_gate_call_unFilter
  no_gate_call_signout no_gate_call_fLike no_gate_call_fUnlike
  no_gate_call_fRetweet no_gate_call_fUnretweet

lemma routes_no_gate_call:
  "list_all (\<lambda>r. r_path r \<noteq> ''/'' \<longrightarrow> makes_no_gate_call (r_func r)) (routes s)"
  by (simp add: routes_def no_gate_call_routes)

lemma routes_root:
  "list_all (\<lambda>r. r_path r = ''/'' \<longrightarrow> r_func r = rootPage_func s \<and> r_at r = NOAUTH \<and> r_rt r = HTML)
     (routes s)"
  by (simp add: routes_def)

text \<open>
  C4, as amended. For every route that \<^verbatim>\<open>NewHandler\<close> registers with \<^verbatim>\<open>handle\<close>,
  the calls of a request are: the gate call of \<^verbatim>\<open>handle\<close>, at the level of the route;
  then, when the gate passed, the call of the route's function; and after it one more
  gate call, at level SESSION, exactly when the route is GET /. So \<^verbatim>\<open>handle\<close> calls the
  gate exactly once, before the route's function, and the only route function that calls
  the gate again is that of GET /. The first part holds for any function that makes no
  gate call of its own.
\<close>

theorem dispatcher_gate_calls:
  "(\<forall>r \<in> set (routes s).
      calls (state_of (handle s (r_func r) (r_at r) (r_rt r) rw req st lg)) =
        calls st @ GateCall (r_at r) #
          (case fst (authenticate s (new_client rw req (r_rt r)) (r_at r) st) of
             Some e \<Rightarrow> []
           | None \<Rightarrow> BusinessCall # (if r_path r = ''/'' then [GateCall SESSION] else [])))
   \<and> (makes_no_gate_call f \<longrightarrow>
      calls (state_of (handle s f at rt rw req st lg)) =
        calls st @ GateCall at #
          (case fst (authenticate s (new_client rw req rt) at st) of
             None \<Rightarrow> [BusinessCall] | Some e \<Rightarrow> []))"
proof (intro conjI ballI impI)
  fix r
  assume r: "r \<in> set (routes s)"
  show "calls (state_of (handle s (r_func r) (r_at r) (r_rt r) rw req st lg)) =
        calls st @ GateCall (r_at r) #
          (case fst (authenticate s (new_client rw req (r_rt r)) (r_at r) st) of
             Some e \<Rightarrow> []
           | None \<Rightarrow> BusinessCall # (if r_path r = ''/'' then [GateCall SESSION] else []))"
  proof (cases "r_path r = ''/''")
    case True
    with r routes_root [of s] have "r_func r = rootPage_func s" "r_at r = NOAUTH" "r_rt r = HTML"
      by (auto simp: list_all_iff)
    with True calls_rootPage [of s rw req st lg] show ?thesis
      by (simp add: rootPage_def split: option.split)
  next
    case False
    with r routes_no_gate_call [of s] have "makes_no_gate_call (r_func r)"
      by (auto simp: list_all_iff)
    with False show ?thesis
      by (simp add: calls_handle split: option.split)
  qed
next
  assume "makes_no_gate_call f"
  then show "calls (state_of (handle s f at rt rw req st lg)) =
        calls st @ GateCall at #
          (case fst (authenticate s (new_client rw req rt) at st) of
             None \<Rightarrow> [BusinessCall] | Some e \<Rightarrow> [])"
    by (rule calls_handle)
qed

theorem dispatcher_gate_calls_witness:
  "\<lparr>r_method = ''POST'', r_path = ''/signout'', r_func = signout_func example_service,
     r_at = CSRF, r_rt = HTML\<rparr> \<in> set (routes example_service)
   \<and> fst (authenticate example_service (new_client fresh_writer signout_request HTML) CSRF state0) = None
   \<and> calls (state_of first_signout) = [GateCall CSRF, BusinessCall]
   \<and> gate_invocations (calls (state_of first_signout)) = 1
   \<and> makes_no_gate_call (defaultTimelinePage_func example_service)
   \<and> calls (state_of (defaultTimelinePage example_service fresh_writer
        (request ''GET'' ''/timeline'' [] [] []) state0 [])) = [GateCall SESSION]"
proof -
  let ?r = "\<lparr>r_method = ''POST'', r_path = ''/signout'', r_func = signout_func example_service,
     r_at = CSRF, r_rt = HTML\<rparr>"
  have r: "?r \<in> set (routes example_service)"
    by (simp add: routes_def)
  have pass: "fst (authenticate example_service (new_client fresh_writer signout_request HTML) CSRF state0) = None"
    by (simp add: dispatch_defs example_defs signout_request_def reading_defs writer_defs Let_def)
  have none: "calls state0 = []"
    by (simp add: state0_def)
  note gc = dispatcher_gate_calls
    [where s = example_service and rw = fresh_writer and st = state0 and lg = "[]"]
  have table: "calls (state_of first_signout) = [GateCall CSRF, BusinessCall]"
    using gc [where req = signout_request, THEN conjunct1, THEN bspec, OF r] pass none
    by (simp add: first_signout_def signout_def)
  have plain: "makes_no_gate_call (defaultTimelinePage_func example_service)"
    by (simp add: makes_no_gate_call_def defaultTimelinePage_func_def)
  have fail: "fst (authenticate example_service
        (new_client fresh_writer (request ''GET'' ''/timeline'' [] [] []) HTML) SESSION state0) =
      Some InvalidSession"
    by (simp add: dispatch_defs example_defs reading_defs writer_defs Let_def)
  have generic: "calls (state_of (defaultTimelinePage example_service fresh_writer
        (request ''GET'' ''/timeline'' [] [] []) state0 [])) = [GateCall SESSION]"
    using gc [where req = "request ''GET'' ''/timeline'' [] [] []"
        and f = "defaultTimelinePage_func example_service" and at = SESSION and rt = HTML,
        THEN conjunct2, THEN mp, OF plain] fail none
    by (simp add: defaultTimelinePage_def)
  show ?thesis
    using r pass table plain generic by (simp add: gate_invocations_def)
qed

text \<open>A GET / of a signed-in user: the record of calls holds two calls of the gate.\<close>

theorem rootPage_calls_gate_twice:
  "calls (state_of (rootPage example_service fresh_writer (root_request ''sid1'') state0 [])) =
     [GateCall NOAUTH, BusinessCall, GateCall SESSION]
   \<and> gate_invocations
       (calls (state_of (rootPage example_service fresh_writer (root_request ''sid1'') state0 []))) = 2"
proof -
  have "calls (state_of (rootPage example_service fresh_writer (root_request ''sid1'') state0 [])) =
     [GateCall NOAUTH, BusinessCall, GateCall SESSION]"
    by (simp add: rootPage_def rootPage_func_def dispatch_defs example_defs root_request_def reading_defs
        writer_defs Let_def)
  then show ?thesis
    by (simp add: gate_invocations_def)
qed

subsection \<open>The root page\<close>

text \<open>
  C5. When the function of GET / runs (the dispatcher's gate call at level NOAUTH has
  passed) and its own gate call at level SESSION signals \<open>errInvalidSession\<close>, or
  passes with a session that is not logged in, the answer is the redirect to
  \<open>/signin\<close>: no error is logged, the body is left as it was, and the status is 302
  when none was written before. Any other error of that gate call is answered with the
  error response. With the gate of the spec, a cookie that names no session, an expired
  one, or a session that is not authenticated yields exactly the redirect.
\<close>

theorem rootPage_soft_failure:
  "(authenticate s (new_client rw req HTML) NOAUTH st = (None, c1, st1) \<and>
    authenticate s c1 SESSION (st1\<lparr>calls := calls st1 @ [BusinessCall]\<rparr>) = (r2, c2, st2) \<longrightarrow>
      (r2 = Some errInvalidSession \<or> r2 = None \<and> \<not> IsLoggedIn (c_s c2) \<longrightarrow>
         rootPage s rw req st lg =
           Finished (redirect c2 ''/signin'') st2
             (lg @ [\<lparr>lr_path = URL_Path req, lr_err = None,
                     lr_took = clock (be st2) - clock (be st)\<rparr>])
         \<and> header (c_w (client_of (rootPage s rw req st lg))) =
             header (c_w c2) @ [(''Location'', ''/signin'')]
         \<and> body (c_w (client_of (rootPage s rw req st lg))) = body (c_w c2)
         \<and> (status (c_w c2) = None \<longrightarrow>
              status (c_w (client_of (rootPage s rw req st lg))) = Some 302))
      \<and> (\<forall>e. r2 = Some e \<and> e \<noteq> errInvalidSession \<longrightarrow>
            rootPage s rw req st lg =
              Finished (writeError c2 e HTML (Method req = MethodGet)) st2
                (lg @ [\<lparr>lr_path = URL_Path req, lr_err = Some e,
                        lr_took = clock (be st2) - clock (be st)\<rparr>])))
   \<and> (svc_authenticate s = Gate d \<and>
       (\<forall>x. lookup (presented_sid req) (be st) = Some x \<longrightarrow> \<not> IsLoggedIn x) \<longrightarrow>
         c_w (client_of (rootPage s rw req st lg)) =
           WriteHeader 302
             (Header_Add ''Location'' ''/signin''
                (Header_Add ''Content-Type'' ''text/html; charset=utf-8'' rw))
         \<and> lr_err (last (log_of (rootPage s rw req st lg))) = None)"
proof (intro conjI impI)
  assume h: "authenticate s (new_client rw req HTML) NOAUTH st = (None, c1, st1) \<and>
    authenticate s c1 SESSION (st1\<lparr>calls := calls st1 @ [BusinessCall]\<rparr>) = (r2, c2, st2)"
  then have pass: "authenticate s (new_client rw req HTML) NOAUTH st = (None, c1, st1)"
    and second: "authenticate s c1 SESSION (st1\<lparr>calls := calls st1 @ [BusinessCall]\<rparr>) = (r2, c2, st2)"
    by simp_all
  show "\<forall>e. r2 = Some e \<and> e \<noteq> errInvalidSession \<longrightarrow>
            rootPage s rw req st lg =
              Finished (writeError c2 e HTML (Method req = MethodGet)) st2
                (lg @ [\<lparr>lr_path = URL_Path req, lr_err = Some e,
                        lr_took = clock (be st2) - clock (be st)\<rparr>])"
    by (simp add: rootPage_def handle_gate_passes [OF pass] rootPage_func_def second
        logger_Printf_def)
  assume soft: "r2 = Some errInvalidSession \<or> r2 = None \<and> \<not> IsLoggedIn (c_s c2)"
  then have func: "rootPage_func s c1 (st1\<lparr>calls := calls st1 @ [BusinessCall]\<rparr>) =
      Ret None (redirect c2 ''/signin'') st2"
    by (auto simp: rootPage_func_def second)
  show root: "rootPage s rw req st lg =
           Finished (redirect c2 ''/signin'') st2
             (lg @ [\<lparr>lr_path = URL_Path req, lr_err = None,
                     lr_took = clock (be st2) - clock (be st)\<rparr>])"
    by (simp add: rootPage_def handle_gate_passes [OF pass] func logger_Printf_def)
  show "header (c_w (client_of (rootPage s rw req st lg))) =
             header (c_w c2) @ [(''Location'', ''/signin'')]"
    by (simp add: root redirect_def WriteHeader_def Header_Add_def)
  show "body (c_w (client_of (rootPage s rw req st lg))) = body (c_w c2)"
    by (simp add: root redirect_def WriteHeader_def Header_Add_def)
  show "status (c_w (client_of (rootPage s rw req st lg))) = Some 302"
    if "status (c_w c2) = None"
    using that by (simp add: root redirect_def WriteHeader_def Header_Add_def StatusFound_def)
next
  assume g: "svc_authenticate s = Gate d \<and>
       (\<forall>x. lookup (presented_sid req) (be st) = Some x \<longrightarrow> \<not> IsLoggedIn x)"
  then have gate: "svc_authenticate s = Gate d"
    and anon: "\<And>x. lookup (presented_sid req) (be st) = Some x \<Longrightarrow> \<not> IsLoggedIn x"
    by simp_all
  let ?c = "new_client rw req HTML"
  have pass: "authenticate s ?c NOAUTH st = (None, ?c, st\<lparr>calls := calls st @ [GateCall NOAUTH]\<rparr>)"
    by (simp add: authenticate_Gate [OF gate] Gate_def)
  have "\<exists>c2 st2. rootPage_func s ?c (st\<lparr>calls := calls st @ [GateCall NOAUTH, BusinessCall]\<rparr>) =
      Ret None (redirect c2 ''/signin'') st2 \<and> c_w c2 = c_w ?c"
  proof (cases "lookup (presented_sid req) (be st)")
    case None
    then have "rootPage_func s ?c (st\<lparr>calls := calls st @ [GateCall NOAUTH, BusinessCall]\<rparr>) =
        Ret None (redirect ?c ''/signin'')
          (st\<lparr>calls := calls st @ [GateCall NOAUTH, BusinessCall, GateCall SESSION]\<rparr>)"
      by (simp add: rootPage_func_def authenticate_Gate [OF gate] Gate_def errInvalidSession_def)
    then show ?thesis
      by blast
  next
    case (Some x)
    with anon have "\<not> IsLoggedIn x"
      by simp
    with Some have "rootPage_func s ?c (st\<lparr>calls := calls st @ [GateCall NOAUTH, BusinessCall]\<rparr>) =
        Ret None (redirect (?c\<lparr>c_s := x\<rparr>) ''/signin'')
          (st\<lparr>calls := calls st @ [GateCall NOAUTH, BusinessCall, GateCall SESSION]\<rparr>)"
      by (simp add: rootPage_func_def authenticate_Gate [OF gate] Gate_def)
    moreover have "c_w (?c\<lparr>c_s := x\<rparr>) = c_w ?c"
      by simp
    ultimately show ?thesis
      by blast
  qed
  then obtain c2 st2 where
    func: "rootPage_func s ?c (st\<lparr>calls := calls st @ [GateCall NOAUTH, BusinessCall]\<rparr>) =
      Ret None (redirect c2 ''/signin'') st2" and w: "c_w c2 = c_w ?c"
    by blast
  have root: "rootPage s rw req st lg =
      Finished (redirect c2 ''/signin'') st2 (logger_Printf req None (clock (be st)) st2 lg)"
    by (simp add: rootPage_def handle_gate_passes [OF pass] func)
  show "c_w (client_of (rootPage s rw req st lg)) =
           WriteHeader 302
             (Header_Add ''Location'' ''/signin''
                (Header_Add ''Content-Type'' ''text/html; charset=utf-8'' rw))"
    by (simp add: root redirect_def w new_client_def StatusFound_def)
  show "lr_err (last (log_of (rootPage s rw req st lg))) = None"
    by (simp add: root logger_Printf_def)
qed

theorem rootPage_soft_failure_witness:
  "authenticate example_service (new_client fresh_writer (root_request ''sid0'') HTML) SESSION
      (state0\<lparr>calls := [GateCall NOAUTH, BusinessCall]\<rparr>) =
     (Some errInvalidSession, new_client fresh_writer (root_request ''sid0'') HTML,
      state0\<lparr>calls := [GateCall NOAUTH, BusinessCall, GateCall SESSION]\<rparr>)
   \<and> rootPage example_service fresh_writer (root_request ''sid0'') state0 [] =
       Finished
         \<lparr>c_w = \<lparr>header = [(''Content-Type'', ''text/html; charset=utf-8''), (''Location'', ''/signin'')],
                 status = Some 302, cookies = [], body = []\<rparr>,
          c_r = root_request ''sid0'', c_s = zero_Session, c_csrf = []\<rparr>
         (state0\<lparr>calls := [GateCall NOAUTH, BusinessCall, GateCall SESSION]\<rparr>)
         [\<lparr>lr_path = ''/'', lr_err = None, lr_took = 0\<rparr>]
   \<and> store_down \<noteq> errInvalidSession
   \<and> rootPage unavailable_service fresh_writer (root_request ''sid1'') state0 [] =
       Finished
         \<lparr>c_w = \<lparr>header = [(''Content-Type'', ''text/html; charset=utf-8'')],
                 status = Some 500, cookies = [],
                 body = [ErrorPageHtml ''session store unreachable'' True]\<rparr>,
          c_r = root_request ''sid1'', c_s = zero_Session, c_csrf = []\<rparr>
         (state0\<lparr>calls := [GateCall NOAUTH, BusinessCall, GateCall SESSION]\<rparr>)
         [\<lparr>lr_path = ''/'', lr_err = Some store_down, lr_took = 0\<rparr>]
   \<and> lookup (presented_sid (root_request ''sid2'')) (be state0) = Some newcomer
   \<and> \<not> IsLoggedIn newcomer
   \<and> c_w (client_of (rootPage example_service fresh_writer (root_request ''sid2'') state0 [])) =
       \<lparr>header = [(''Content-Type'', ''text/html; charset=utf-8''), (''Location'', ''/signin'')],
        status = Some 302, cookies = [], body = []\<rparr>"
proof -
  let ?c0 = "new_client fresh_writer (root_request ''sid0'') HTML"
  let ?c1 = "new_client fresh_writer (root_request ''sid1'') HTML"
  let ?st1 = "state0\<lparr>calls := [GateCall NOAUTH]\<rparr>"
  let ?st2 = "state0\<lparr>calls := [GateCall NOAUTH, BusinessCall, GateCall SESSION]\<rparr>"
  have pass0: "authenticate example_service ?c0 NOAUTH state0 = (None, ?c0, ?st1)"
    by (simp add: dispatch_defs example_defs root_request_def unavailable_service_def store_down_def reading_defs Let_def)
  have expired: "authenticate example_service ?c0 SESSION (?st1\<lparr>calls := calls ?st1 @ [BusinessCall]\<rparr>) =
      (Some errInvalidSession, ?c0, ?st2)"
    by (simp add: dispatch_defs example_defs root_request_def unavailable_service_def store_down_def reading_defs Let_def)
  have soft: "rootPage example_service fresh_writer (root_request ''sid0'') state0 [] =
      Finished (redirect ?c0 ''/signin'') ?st2
        [\<lparr>lr_path = URL_Path (root_request ''sid0''), lr_err = None,
          lr_took = clock (be ?st2) - clock (be state0)\<rparr>]"
    using rootPage_soft_failure
      [where s = example_service and rw = fresh_writer and req = "root_request ''sid0''"
         and st = state0 and lg = "[]" and ?c1.0 = ?c0 and ?st1.0 = ?st1
         and ?r2.0 = "Some errInvalidSession" and ?c2.0 = ?c0 and ?st2.0 = ?st2]
      pass0 expired
    by simp
  have pass1: "authenticate unavailable_service ?c1 NOAUTH state0 = (None, ?c1, ?st1)"
    by (simp add: dispatch_defs example_defs root_request_def unavailable_service_def store_down_def reading_defs Let_def)
  have down: "authenticate unavailable_service ?c1 SESSION (?st1\<lparr>calls := calls ?st1 @ [BusinessCall]\<rparr>) =
      (Some store_down, ?c1, ?st2)"
    by (simp add: dispatch_defs example_defs root_request_def unavailable_service_def store_down_def reading_defs Let_def)
  have other: "store_down \<noteq> errInvalidSession"
    by (simp add: store_down_def errInvalidSession_def)
  have hard: "rootPage unavailable_service fresh_writer (root_request ''sid1'') state0 [] =
      Finished (writeError ?c1 store_down HTML (Method (root_request ''sid1'') = MethodGet)) ?st2
        [\<lparr>lr_path = URL_Path (root_request ''sid1''), lr_err = Some store_down,
          lr_took = clock (be ?st2) - clock (be state0)\<rparr>]"
    using rootPage_soft_failure
      [where s = unavailable_service and rw = fresh_writer and req = "root_request ''sid1''"
         and st = state0 and lg = "[]" and ?c1.0 = ?c1 and ?st1.0 = ?st1
         and ?r2.0 = "Some store_down" and ?c2.0 = ?c1 and ?st2.0 = ?st2]
      pass1 down other
    by simp
  have gate: "svc_authenticate example_service = Gate CsrfSecret"
    by (simp add: example_service_def)
  have anon: "lookup (presented_sid (root_request ''sid2'')) (be state0) = Some newcomer"
    and out: "\<not> IsLoggedIn newcomer"
    by (simp_all add: example_defs root_request_def unavailable_service_def store_down_def reading_defs)
  have new: "c_w (client_of (rootPage example_service fresh_writer (root_request ''sid2'') state0 [])) =
      WriteHeader 302
        (Header_Add ''Location'' ''/signin''
           (Header_Add ''Content-Type'' ''text/html; charset=utf-8'' fresh_writer))"
    using rootPage_soft_failure
      [where s = example_service and rw = fresh_writer and req = "root_request ''sid2''"
         and st = state0 and lg = "[]" and d = CsrfSecret]
      gate anon out
    by simp
  show ?thesis
    using expired other anon out
    by (simp add: soft hard new)
       (simp add: writer_defs example_defs root_request_def unavailable_service_def store_down_def reading_defs Let_def)
qed

subsection \<open>The attachments of a post\<close>

text \<open>
  C8. A POST /post that the gate accepts and whose \<open>MultipartForm\<close> is nil (the body
  was not multipart/form-data) makes the function of the route panic at
  \<^verbatim>\<open>c.r.MultipartForm.File\<close>: the nil branch is reachable. The deferred function
  still logs the request, with no error.
\<close>

theorem post_nil_MultipartForm_panics:
  assumes "authenticate s (new_client rw req HTML) CSRF st = (None, c1, st1)"
    and "MultipartForm (c_r c1) = None"
  shows "post s rw req st lg =
           Aborted c1 (st1\<lparr>calls := calls st1 @ [BusinessCall]\<rparr>)
             (lg @ [\<lparr>lr_path = URL_Path req, lr_err = None,
                     lr_took = clock (be st1) - clock (be st)\<rparr>])"
  using assms(2)
  by (simp add: post_def handle_gate_passes [OF assms(1)] post_func_def Let_def logger_Printf_def)


theorem post_nil_MultipartForm_panics_witness:
  "authenticate example_service (new_client fresh_writer (post_request ''tok1'') HTML) CSRF state0 =
     (None, (new_client fresh_writer (post_request ''tok1'') HTML)\<lparr>c_s := alice\<rparr>,
      state0\<lparr>calls := [GateCall CSRF]\<rparr>)
   \<and> MultipartForm (post_request ''tok1'') = None
   \<and> post example_service fresh_writer (post_request ''tok1'') state0 [] =
       Aborted ((new_client fresh_writer (post_request ''tok1'') HTML)\<lparr>c_s := alice\<rparr>)
         (state0\<lparr>calls := [GateCall CSRF, BusinessCall]\<rparr>)
         [\<lparr>lr_path = ''/post'', lr_err = None, lr_took = 0\<rparr>]"
proof -
  let ?c = "new_client fresh_writer (post_request ''tok1'') HTML"
  have pass: "authenticate example_service ?c CSRF state0 =
      (None, ?c\<lparr>c_s := alice\<rparr>, state0\<lparr>calls := [GateCall CSRF]\<rparr>)"
    by (simp add: dispatch_defs example_defs post_request_def reading_defs Let_def)
  have nil: "MultipartForm (c_r (?c\<lparr>c_s := alice\<rparr>)) = None"
    by (simp add: post_request_def request_def)
  from post_nil_MultipartForm_panics [OF pass nil, of "[]"] pass nil
  show ?thesis
    by (simp add: post_request_def request_def)
qed

subsection \<open>The offset of a search\<close>










end
